theory Spec2Isabelle
  imports Main
begin

section \<open>Wire types (types.ts)\<close>

datatype Channel =
  AUTH | BALANCES | HEARTBEAT | MARKET_L2 | MARKET_L3 | PRICES | SYMBOLS | TICKER | TRADES | TRADING

fun channel_name :: "Channel \<Rightarrow> string" where
  "channel_name AUTH = ''auth''"
| "channel_name BALANCES = ''balances''"
| "channel_name HEARTBEAT = ''heartbeat''"
| "channel_name MARKET_L2 = ''l2''"
| "channel_name MARKET_L3 = ''l3''"
| "channel_name PRICES = ''prices''"
| "channel_name SYMBOLS = ''symbols''"
| "channel_name TICKER = ''ticker''"
| "channel_name TRADES = ''trades''"
| "channel_name TRADING = ''trading''"

datatype ChannelEvent = SUBSCRIBED | UNSUBSCRIBED | REJECTED | SNAPSHOT | UPDATED

text \<open>The members of \<open>OrderStatus\<close> carry a prefix: \<open>REJECTED\<close> is also a \<open>ChannelEvent\<close>.\<close>

datatype OrderStatus =
  ORD_CANCELLED | ORD_EXPIRED | ORD_OPEN | ORD_PARTIAL | ORD_PENDING | ORD_REJECTED

datatype Action = SUBSCRIBE | UNSUBSCRIBE | NEW_ORDER_SINGLE | CANCEL_ORDER_REQUEST

datatype MarketLevel = L2 | L3

text \<open>
  A parameter object (\<open>{ symbol: 'BTC-USD' }\<close>) is its list of fields in insertion order,
  the order in which \<open>JSON.stringify\<close> writes them.
\<close>

type_synonym params = "(string \<times> string) list"

text \<open>Of an \<open>Order\<close> the library reads and writes these three fields only.\<close>

record Order =
  orderID :: string
  clOrdID :: string
  ordStatus :: OrderStatus

text \<open>
  An inbound frame after \<open>JSON.parse\<close>: the \<open>BaseResponse\<close> envelope and the fields of
  \<open>TickerResponse\<close>, \<open>OrderUpdated\<close> and \<open>OrderSnapshot\<close> that the library inspects
  (a field the frame lacks is \<open>None\<close>, JavaScript's \<open>undefined\<close>).
\<close>

record frame =
  channel :: Channel
  event :: ChannelEvent
  text' :: "string option"
  symbol :: "string option"
  upd_clOrdID :: "string option"
  upd_orderID :: "string option"
  upd_ordStatus :: "OrderStatus option"
  orders :: "Order list option"

text \<open>An outbound request: \<open>{ action, channel, ...params }\<close>.\<close>

record request =
  action :: Action
  rchannel :: Channel
  rfields :: params

record OrderCreationRequest =
  req_clOrdID :: string
  req_fields :: params

section \<open>Promises, closures and the transport\<close>

datatype error = Error string | TypeError string | SyntaxError string | Thrown string

datatype val = VUndefined | VFrame frame | VOrders "Order list" | VOrder Order | VSocket nat

type_synonym pid = nat

text \<open>
  The closures of bcx.ts that are handed to \<open>subscribe\<close> as \<open>listener\<close>, each with the
  variables it captures (a promise stands for its \<open>resolve\<close>/\<open>reject\<close> pair):
  \<^item> \<open>UserCallback n\<close>: a callback of the library's user; the model records its calls;
  \<^item> \<open>ForwardCb\<close>: \<open>async (res) => { callback(res); resolve() }\<close> of \<open>subscribeTicker\<close>,
    \<open>subscribeMarket\<close>, \<open>subscribeBalances\<close>;
  \<^item> \<open>SnapshotCb\<close>: the listener of \<open>getTicker\<close>, \<open>getMarket\<close>, \<open>getBalances\<close>;
  \<^item> \<open>TradingCb\<close>: the listener \<open>subscribeTrading\<close> wraps around its argument;
  \<^item> \<open>CreateOrderCb\<close>, \<open>OpenOrdersCb\<close>, \<open>CancelOrderCb\<close>, \<open>CancelAllCb\<close>: the arguments
    that \<open>createOrder\<close>, \<open>getOpenOrders\<close>, \<open>cancelOrder\<close>, \<open>cancelAllOrders\<close> pass to
    \<open>subscribeTrading\<close> (\<open>CancelAllCb\<close> captures the \<open>orders\<close> array, a cell of the store).
\<close>

datatype callback =
  UserCallback nat
| ForwardCb callback pid
| SnapshotCb Channel "params option" pid
| TradingCb callback pid
| CreateOrderCb string pid
| OpenOrdersCb pid
| CancelOrderCb string pid
| CancelAllCb nat pid

text \<open>
  The closures of socket.ts that are registered on the socket's \<open>message\<close> event:
  \<open>authHandler\<close> (captures \<open>ws\<close> and the promise), \<open>handler.socketHandler\<close> (captures
  \<open>channel\<close>, \<open>params\<close> and the promise) and \<open>tmpSocketHandler\<close> (captures the removed
  \<open>listener\<close>, given here by its four fields, and the promise).
\<close>

datatype handler =
  AuthHandler nat pid
| SocketHandler Channel params pid
| TmpSocketHandler Channel params callback handler pid

record Listener =
  lchannel :: Channel
  params :: params
  clientListener :: callback
  socketHandler :: handler

text \<open>
  What is left of an async function after an \<open>await\<close>, or a \<open>then\<close> reaction;
  \<open>Dropped\<close> waits on a promise whose value the code discards.
\<close>

datatype cont =
  SubscribeConnected pid Channel "callback option" params "string option"
| SubscribeAuthed pid Channel callback params
| SendConnected pid request "string option"
| SendAuthed pid request
| CatchReject pid
| ThenResolve pid val
| ThenReject pid error
| ThenResolveCell pid nat
| ReturnUndefined pid
| ClearTradingFlag pid
| FindOrder pid bool string
| CancelOrderSubscribed pid string
| CancelAllGotOrders pid
| CancelAllSubscribed pid nat
| CancelAllSent pid nat nat
| Dropped

datatype pstate = Pending "cont list" | Fulfilled val | Rejected error

text \<open>
  The transport is the \<open>ws\<close> package behind \<open>isomorphic-ws\<close>, a Node \<open>EventEmitter\<close>:
  \<^item> a listener added with \<open>on('message', h)\<close> is called with the frame's text, one added
    with \<open>addEventListener('message', h)\<close> with a \<open>MessageEvent\<close> whose \<open>data\<close> is that text;
  \<^item> \<open>removeEventListener\<close> removes every registration of the function, however added;
  \<^item> \<open>emit\<close> calls the listeners registered when the frame arrives, in registration
    order, and stops at the first one that throws;
  \<^item> \<open>send(data, cb)\<close> writes on an open socket and calls \<open>cb\<close> without an error, and
    calls \<open>cb\<close> with an error otherwise.
\<close>

datatype readyState = CONNECTING | OPENED | CLOSED

datatype registration = ViaOn | ViaAddEventListener

datatype msg = RawData frame | MessageEvent frame

record conn =
  readyState :: readyState
  handlers :: "(registration \<times> handler) list"
  opener :: pid

text \<open>
  The module state of socket.ts (\<open>_ws\<close>, \<open>listeners\<close>, \<open>isAuthed\<close>), the fields of the one
  \<open>Bcx\<close> instance (\<open>apiSecret\<close>, \<open>isSubscribedTrading\<close>), and the runtime around them:
  every socket constructed, the promises, the microtask queue, the frames written, the
  \<open>orders\<close> arrays of \<open>cancelAllOrders\<close>, the calls of user callbacks, the rejections
  nobody handles, the exceptions nobody catches and what each call of the public interface
  returned (a promise) or threw.
\<close>

record sys =
  conns :: "conn list"
  ws :: "nat option"
  listeners :: "Listener list"
  isAuthed :: bool
  apiSecret :: "string option"
  isSubscribedTrading :: bool
  promises :: "pstate list"
  jobs :: "(cont \<times> (error + val)) list"
  outbox :: "(nat \<times> request) list"
  cells :: "Order list list"
  calls :: "(nat \<times> frame) list"
  unhandled :: "error list"
  uncaught :: "error list"
  returned :: "(error + pid) list"

definition newPromise :: "sys \<Rightarrow> pid \<times> sys" where
  "newPromise s = (length (promises s), s\<lparr>promises := promises s @ [Pending []]\<rparr>)"

text \<open>Settling a promise twice does nothing; its reactions become microtasks.\<close>

definition settle :: "pid \<Rightarrow> error + val \<Rightarrow> sys \<Rightarrow> sys" where
  "settle p r s =
     (if p < length (promises s) then
        (case promises s ! p of
           Pending ks \<Rightarrow>
             s\<lparr>promises := (promises s)[p := (case r of Inl e \<Rightarrow> Rejected e | Inr v \<Rightarrow> Fulfilled v)],
               jobs := jobs s @ map (\<lambda>k. (k, r)) ks\<rparr>
         | Fulfilled v \<Rightarrow> s
         | Rejected e \<Rightarrow> s)
      else s)"

definition resolve :: "pid \<Rightarrow> val \<Rightarrow> sys \<Rightarrow> sys" where
  "resolve p v s = settle p (Inr v) s"

definition reject :: "pid \<Rightarrow> error \<Rightarrow> sys \<Rightarrow> sys" where
  "reject p e s = settle p (Inl e) s"

definition await :: "pid \<Rightarrow> cont \<Rightarrow> sys \<Rightarrow> sys" where
  "await p k s =
     (if p < length (promises s) then
        (case promises s ! p of
           Pending ks \<Rightarrow> s\<lparr>promises := (promises s)[p := Pending (ks @ [k])]\<rparr>
         | Fulfilled v \<Rightarrow> s\<lparr>jobs := jobs s @ [(k, Inr v)]\<rparr>
         | Rejected e \<Rightarrow> s\<lparr>jobs := jobs s @ [(k, Inl e)]\<rparr>)
      else s)"

definition ws_on :: "nat \<Rightarrow> handler \<Rightarrow> sys \<Rightarrow> sys" where
  "ws_on c h s =
     s\<lparr>conns := (conns s)[c := (conns s ! c)\<lparr>handlers := handlers (conns s ! c) @ [(ViaOn, h)]\<rparr>]\<rparr>"

definition addEventListener :: "nat \<Rightarrow> handler \<Rightarrow> sys \<Rightarrow> sys" where
  "addEventListener c h s =
     s\<lparr>conns := (conns s)[c := (conns s ! c)
         \<lparr>handlers := handlers (conns s ! c) @ [(ViaAddEventListener, h)]\<rparr>]\<rparr>"

definition removeEventListener :: "nat \<Rightarrow> handler \<Rightarrow> sys \<Rightarrow> sys" where
  "removeEventListener c h s =
     s\<lparr>conns := (conns s)[c := (conns s ! c)
         \<lparr>handlers := filter (\<lambda>rg. snd rg \<noteq> h) (handlers (conns s ! c))\<rparr>]\<rparr>"

definition ws_send :: "nat \<Rightarrow> request \<Rightarrow> (error option \<Rightarrow> sys \<Rightarrow> sys) \<Rightarrow> sys \<Rightarrow> sys" where
  "ws_send c req cb s =
     (if c < length (conns s) \<and> readyState (conns s ! c) = OPENED
      then cb None (s\<lparr>outbox := outbox s @ [(c, req)]\<rparr>)
      else cb (Some (Error ''WebSocket is not open'')) s)"

text \<open>The callback every \<open>_ws.send\<close> but the one of \<open>send\<close> passes: \<open>if (err) reject(err)\<close>.\<close>

definition rejectOnError :: "pid \<Rightarrow> error option \<Rightarrow> sys \<Rightarrow> sys" where
  "rejectOnError p err s = (case err of None \<Rightarrow> s | Some e \<Rightarrow> reject p e s)"

section \<open>socket.ts\<close>

definition flush :: "sys \<Rightarrow> sys" where
  "flush s = s\<lparr>ws := None, listeners := [], isAuthed := False\<rparr>"

definition truthy :: "string option \<Rightarrow> bool" where
  "truthy t = (case t of None \<Rightarrow> False | Some x \<Rightarrow> x \<noteq> [])"

text \<open>
  \<open>JSON.stringify\<close> of a parameter object whose values are strings: fields in insertion
  order, names and values between double quotes, a double quote or a backslash inside
  them preceded by a backslash. (\<open>JSON.stringify\<close> escapes control characters too; they
  are written as they are here, which keeps different objects apart as well.) Of
  \<open>undefined\<close> it is \<open>undefined\<close>, which equals no string.
\<close>

definition escaped :: "string \<Rightarrow> string" where
  "escaped x =
     concat (map (\<lambda>c. if c = CHR 0x22 \<or> c = CHR 0x5C then [CHR 0x5C, c] else [c]) x)"

definition quoted :: "string \<Rightarrow> string" where
  "quoted x = CHR 0x22 # escaped x @ [CHR 0x22]"

fun members :: "params \<Rightarrow> string" where
  "members [] = []"
| "members [kv] = quoted (fst kv) @ '':'' @ quoted (snd kv)"
| "members (kv # rest) = quoted (fst kv) @ '':'' @ quoted (snd kv) @ '','' @ members rest"

definition JSON_stringify :: "params option \<Rightarrow> string option" where
  "JSON_stringify x = (case x of None \<Rightarrow> None | Some ps \<Rightarrow> Some (''{'' @ members ps @ ''}''))"

text \<open>
  An async function returns a promise: the model allocates it first and returns it with
  the state. Where the source returns \<open>new Promise(..)\<close> or \<open>Promise.reject(..)\<close> from an
  async function, the promise returned and the one constructed are one promise here.
  \<open>authenticate\<close> (lines 25-68) registers \<open>authHandler\<close> on its argument \<open>ws\<close> and writes on
  the module's \<open>_ws\<close>. \<open>console.error\<close> and \<open>console.log\<close> of a text are left out
  throughout.
\<close>

definition authenticate :: "nat \<Rightarrow> string \<Rightarrow> sys \<Rightarrow> pid \<times> sys" where
  "authenticate c authToken s =
     (let (p, s1) = newPromise s in
      if isAuthed s1 then (p, resolve p VUndefined s1)
      else
        (let s2 = addEventListener c (AuthHandler c p) s1 in
         (p, case ws s2 of
               None \<Rightarrow> reject p (TypeError ''Cannot read property send of undefined'') s2
             | Some w \<Rightarrow>
                 ws_send w \<lparr>action = SUBSCRIBE, rchannel = AUTH, rfields = [(''token'', authToken)]\<rparr>
                   (rejectOnError p) s2)))"

definition getSocket :: "sys \<Rightarrow> pid \<times> sys" where
  "getSocket s =
     (let (p, s1) = newPromise s in
      (p, s1\<lparr>conns := conns s1 @ [\<lparr>readyState = CONNECTING, handlers = [], opener = p\<rparr>]\<rparr>))"

text \<open>The predicate of \<open>getListener\<close> (line 119); \<open>params\<close> defaults to \<open>{}\<close>.\<close>

definition sameKey :: "Channel \<Rightarrow> params option \<Rightarrow> Listener \<Rightarrow> bool" where
  "sameKey ch ps l =
     (lchannel l = ch \<and>
      JSON_stringify (Some (params l)) =
        JSON_stringify (Some (case ps of None \<Rightarrow> [] | Some x \<Rightarrow> x)))"

definition getListener :: "Channel \<Rightarrow> params option \<Rightarrow> sys \<Rightarrow> Listener option" where
  "getListener ch ps s = find (sameKey ch ps) (listeners s)"

text \<open>
  \<open>send\<close> (lines 70-91) in the three parts its two \<open>await\<close>s cut it into: \<open>send\<close> up to
  \<open>await getSocket()\<close>, \<open>send2\<close> up to \<open>await authenticate(..)\<close>, \<open>send3\<close> the executor of
  the promise returned. \<open>subscribe\<close> (lines 183-258) is cut the same way into
  \<open>subscribe\<close>, \<open>subscribe2\<close> and \<open>subscribe3\<close>.
\<close>

definition send3 :: "pid \<Rightarrow> request \<Rightarrow> sys \<Rightarrow> sys" where
  "send3 p req s =
     (case ws s of
        None \<Rightarrow> reject p (TypeError ''Cannot read property send of undefined'') s
      | Some w \<Rightarrow>
          ws_send w req (\<lambda>err. case err of None \<Rightarrow> resolve p VUndefined | Some e \<Rightarrow> reject p e) s)"

definition send2 :: "pid \<Rightarrow> request \<Rightarrow> string option \<Rightarrow> sys \<Rightarrow> sys" where
  "send2 p req authToken s =
     (if truthy authToken
      then (case ws s of
              None \<Rightarrow>
                reject p (TypeError ''Cannot read property addEventListener of undefined'') s
            | Some w \<Rightarrow>
                (let (q, s1) = authenticate w (the authToken) s in await q (SendAuthed p req) s1))
      else send3 p req s)"

definition send :: "request \<Rightarrow> string option \<Rightarrow> sys \<Rightarrow> pid \<times> sys" where
  "send req authToken s =
     (let (p, s1) = newPromise s in
      if ws s1 = None
      then (let (q, s2) = getSocket s1 in (p, await q (SendConnected p req authToken) s2))
      else (p, send2 p req authToken s1))"

text \<open>
  \<open>unsubscribe\<close> (lines 122-181). Line 131 compares with \<open>JSON.stringify(params)\<close>, without
  the default \<open>getListener\<close> applies.
\<close>

definition unsubscribe :: "Channel \<Rightarrow> params option \<Rightarrow> sys \<Rightarrow> pid \<times> sys" where
  "unsubscribe ch ps s =
     (let (p, s1) = newPromise s in
      case (ws s1, getListener ch ps s1) of
        (Some w, Some listener) \<Rightarrow>
          (let s2 = s1\<lparr>listeners :=
                       filter (\<lambda>l. lchannel l \<noteq> ch \<and>
                                   JSON_stringify (Some (params l)) \<noteq> JSON_stringify ps)
                              (listeners s1)\<rparr>;
               s3 = removeEventListener w (socketHandler listener) s2;
               s4 = addEventListener w
                      (TmpSocketHandler (lchannel listener) (params listener)
                         (clientListener listener) (socketHandler listener) p) s3
           in (p, ws_send w
                    \<lparr>action = UNSUBSCRIBE, rchannel = ch,
                     rfields = (case ps of None \<Rightarrow> [] | Some x \<Rightarrow> x)\<rparr>
                    (rejectOnError p) s4))
      | _ \<Rightarrow>
          (p, reject p (Error (''You are not subscribed to the channel '' @ channel_name ch)) s1))"

text \<open>The executor of the promise \<open>subscribe\<close> returns (lines 208-257).\<close>

definition subscribe3 :: "pid \<Rightarrow> Channel \<Rightarrow> callback \<Rightarrow> params \<Rightarrow> sys \<Rightarrow> sys" where
  "subscribe3 p ch listener ps s =
     (let h = SocketHandler ch ps p;
          s1 = s\<lparr>listeners := listeners s @
                  [\<lparr>lchannel = ch, params = ps, clientListener = listener, socketHandler = h\<rparr>]\<rparr>
      in case ws s1 of
           None \<Rightarrow> reject p (TypeError ''Cannot read property on of undefined'') s1
         | Some w \<Rightarrow>
             ws_send w \<lparr>action = SUBSCRIBE, rchannel = ch, rfields = ps\<rparr> (rejectOnError p)
               (ws_on w h s1))"

definition subscribe2 ::
  "pid \<Rightarrow> Channel \<Rightarrow> callback option \<Rightarrow> params \<Rightarrow> string option \<Rightarrow> sys \<Rightarrow> sys" where
  "subscribe2 p ch listener ps authToken s =
     (case listener of
        None \<Rightarrow>
          reject p (Error ''You must pass a valid listener to the subscription event'') s
      | Some cb \<Rightarrow>
          if getListener ch (Some ps) s \<noteq> None
          then reject p
                 (Error (''You already have a listener set for channel '' @ channel_name ch)) s
          else if truthy authToken
          then (case ws s of
                  None \<Rightarrow>
                    reject p (TypeError ''Cannot read property addEventListener of undefined'') s
                | Some w \<Rightarrow>
                    (let (q, s1) = authenticate w (the authToken) s
                     in await q (SubscribeAuthed p ch cb ps) s1))
          else subscribe3 p ch cb ps s)"

definition subscribe ::
  "Channel \<Rightarrow> callback option \<Rightarrow> params option \<Rightarrow> string option \<Rightarrow> sys \<Rightarrow> pid \<times> sys" where
  "subscribe ch listener pso authToken s =
     (let ps = (case pso of None \<Rightarrow> [] | Some x \<Rightarrow> x);
          (p, s1) = newPromise s in
      if ws s1 = None
      then (let (q, s2) = getSocket s1
            in (p, await q (SubscribeConnected p ch listener ps authToken) s2))
      else (p, subscribe2 p ch listener ps authToken s1))"


section \<open>The listeners of bcx.ts\<close>

text \<open>\<open>new Error(json.text)\<close> and \<open>'...' + trading.text\<close> when the frame has no text.\<close>

definition messageOf :: "string option \<Rightarrow> string" where
  "messageOf t = (case t of None \<Rightarrow> [] | Some x \<Rightarrow> x)"

definition shown :: "string option \<Rightarrow> string" where
  "shown t = (case t of None \<Rightarrow> ''undefined'' | Some x \<Rightarrow> x)"

definition ordersOf :: "nat \<Rightarrow> sys \<Rightarrow> Order list" where
  "ordersOf cell s = (if cell < length (cells s) then cells s ! cell else [])"

text \<open>
  \<open>const order = orders.find(..); order.ordStatus = OrderStatus.CANCELLED\<close>:
  the first match is marked; \<open>None\<close> when there is none (the assignment throws).
\<close>

fun markFirst :: "(Order \<Rightarrow> bool) \<Rightarrow> Order list \<Rightarrow> Order list option" where
  "markFirst P [] = None"
| "markFirst P (x # xs) =
     (if P x then Some (x\<lparr>ordStatus := ORD_CANCELLED\<rparr> # xs)
      else map_option ((#) x) (markFirst P xs))"

text \<open>
  A call \<open>clientListener(json)\<close>. The listeners are async functions: the call runs one up
  to its \<open>await unsubscribe(..)\<close>, what follows the \<open>await\<close> is a reaction to the promise of
  \<open>unsubscribe\<close>, and nobody handles the promise the listener itself returns.
\<close>

fun clientCall :: "callback \<Rightarrow> frame \<Rightarrow> sys \<Rightarrow> sys" where
  "clientCall (UserCallback n) f s = s\<lparr>calls := calls s @ [(n, f)]\<rparr>"
| "clientCall (ForwardCb cb p) f s = resolve p VUndefined (clientCall cb f s)"
| "clientCall (SnapshotCb ch ps p) f s =
     (if event f = SNAPSHOT
      then (let (q, s1) = unsubscribe ch ps s in await q (ThenResolve p (VFrame f)) s1)
      else s)"
| "clientCall (TradingCb cb p) f s =
     resolve p VUndefined
       (clientCall cb f (if event f = SUBSCRIBED then s\<lparr>isSubscribedTrading := True\<rparr> else s))"
| "clientCall (CreateOrderCb X p) f s =
     (case event f of
        SUBSCRIBED \<Rightarrow> s
      | UNSUBSCRIBED \<Rightarrow> s
      | SNAPSHOT \<Rightarrow> s
      | UPDATED \<Rightarrow>
          if Some X = upd_clOrdID f
          then (let (q, s1) = unsubscribe TRADING None s in await q (ThenResolve p (VFrame f)) s1)
          else s
      | REJECTED \<Rightarrow>
          (let (q, s1) = unsubscribe TRADING None s
           in await q (ThenReject p
                (Error (''Order '' @ X @ '' rejected because '' @ shown (text' f)))) s1))"
| "clientCall (OpenOrdersCb p) f s =
     (if event f = SNAPSHOT
      then resolve p (case orders f of None \<Rightarrow> VUndefined | Some os \<Rightarrow> VOrders os) s
      else s)"
| "clientCall (CancelOrderCb oid p) f s =
     (case event f of
        SUBSCRIBED \<Rightarrow> s
      | UNSUBSCRIBED \<Rightarrow> s
      | SNAPSHOT \<Rightarrow> s
      | UPDATED \<Rightarrow>
          if Some oid = upd_orderID f \<and> upd_ordStatus f = Some ORD_CANCELLED
          then (let (q, s1) = unsubscribe TRADING None s in await q (ThenResolve p (VFrame f)) s1)
          else s
      | REJECTED \<Rightarrow>
          (let (q, s1) = unsubscribe TRADING None s
           in await q (ThenReject p
                (Error (''Cancelling order '' @ oid @ '' rejected because '' @ shown (text' f)))) s1))"
| "clientCall (CancelAllCb cell p) f s =
     (case event f of
        SUBSCRIBED \<Rightarrow> s
      | UNSUBSCRIBED \<Rightarrow> s
      | SNAPSHOT \<Rightarrow> s
      | UPDATED \<Rightarrow>
          (case (if upd_ordStatus f = Some ORD_CANCELLED
                 then markFirst (\<lambda>order. Some (orderID order) = upd_orderID f) (ordersOf cell s)
                 else Some (ordersOf cell s)) of
             None \<Rightarrow>
               s\<lparr>unhandled := unhandled s @
                    [TypeError ''Cannot set property ordStatus of undefined'']\<rparr>
           | Some os \<Rightarrow>
               (let s1 = s\<lparr>cells := (cells s)[cell := os]\<rparr> in
                if filter (\<lambda>order. ordStatus order \<noteq> ORD_CANCELLED) (ordersOf cell s1) = []
                then (let (q, s2) = unsubscribe TRADING None s1
                      in await q (ThenResolveCell p cell) s2)
                else s1))
      | REJECTED \<Rightarrow>
          reject p (Error (''Cancelling all orders rejected because '' @ shown (text' f))) s)"

section \<open>The message handlers of socket.ts\<close>

text \<open>
  A handler returns the exception it throws, if any. \<open>socketHandler\<close> reads
  \<open>data.data ? data.data : JSON.parse(data)\<close>: called with the text it parses it; called
  with a \<open>MessageEvent\<close> it takes the text itself for the frame, and the text has no
  \<open>channel\<close>. \<open>authHandler\<close> and \<open>tmpSocketHandler\<close> read \<open>JSON.parse(data.data)\<close>.
\<close>

fun handle :: "handler \<Rightarrow> msg option \<Rightarrow> sys \<Rightarrow> error option \<times> sys" where
  "handle h None s = (None, s)"
| "handle (AuthHandler c p) (Some (RawData f)) s =
     (Some (SyntaxError ''Unexpected token u in JSON at position 0''), s)"
| "handle (AuthHandler c p) (Some (MessageEvent f)) s =
     (None,
      if channel f \<noteq> AUTH then s
      else if event f = SUBSCRIBED
      then resolve p VUndefined (removeEventListener c (AuthHandler c p) (s\<lparr>isAuthed := True\<rparr>))
      else if event f = REJECTED then reject p (Error (messageOf (text' f))) s
      else s)"
| "handle (SocketHandler ch ps p) (Some (MessageEvent f)) s = (None, s)"
| "handle (SocketHandler ch ps p) (Some (RawData f)) s =
     (None,
      if channel f = ch then
        (case getListener ch (Some ps) s of
           None \<Rightarrow> resolve p VUndefined s
         | Some l \<Rightarrow>
             (case event f of
                SUBSCRIBED \<Rightarrow> resolve p VUndefined s
              | REJECTED \<Rightarrow> reject p (Error (messageOf (text' f))) s
              | UNSUBSCRIBED \<Rightarrow> clientCall (clientListener l) f s
              | SNAPSHOT \<Rightarrow> clientCall (clientListener l) f s
              | UPDATED \<Rightarrow> clientCall (clientListener l) f s))
      else s)"
| "handle (TmpSocketHandler lch lps lcb lh p) (Some (RawData f)) s =
     (Some (SyntaxError ''Unexpected token u in JSON at position 0''), s)"
| "handle (TmpSocketHandler lch lps lcb lh p) (Some (MessageEvent f)) s =
     (if event f = UNSUBSCRIBED then
        (case ws s of
           None \<Rightarrow> (Some (TypeError ''Cannot read property removeEventListener of undefined''), s)
         | Some w \<Rightarrow>
             (None, resolve p VUndefined
                      (removeEventListener w (TmpSocketHandler lch lps lcb lh p) s)))
      else if event f = REJECTED then
        (let s1 = s\<lparr>listeners := listeners s @
                     [\<lparr>lchannel = lch, params = lps, clientListener = lcb, socketHandler = lh\<rparr>]\<rparr>
         in case ws s1 of
              None \<Rightarrow> (Some (TypeError ''Cannot read property addEventListener of undefined''), s1)
            | Some w \<Rightarrow>
                (None, reject p (Error (messageOf (text' f)))
                         (removeEventListener w (TmpSocketHandler lch lps lcb lh p)
                            (addEventListener w lh s1))))
      else (None, s))"

fun emit :: "(registration \<times> handler) list \<Rightarrow> frame \<Rightarrow> sys \<Rightarrow> sys" where
  "emit [] f s = s"
| "emit (rh # rest) f s =
     (case handle (snd rh)
             (Some (case fst rh of ViaOn \<Rightarrow> RawData f | ViaAddEventListener \<Rightarrow> MessageEvent f)) s of
        (None, s1) \<Rightarrow> emit rest f s1
      | (Some e, s1) \<Rightarrow> s1\<lparr>uncaught := uncaught s1 @ [e]\<rparr>)"

text \<open>
  The events of a socket: a frame arrives, and the three handlers \<open>getSocket\<close> sets.
  \<open>onerror\<close> (lines 106-109) serialises the event for \<open>console.error\<close> before it
  rejects: \<open>JSON.stringify\<close> throws when the event holds a cycle (the \<open>ErrorEvent\<close> of
  the transport refers to its socket), the handler ends there and \<open>reject\<close> is not
  reached.
\<close>

definition onmessage :: "nat \<Rightarrow> frame \<Rightarrow> sys \<Rightarrow> sys" where
  "onmessage c f s =
     (if c < length (conns s) \<and> readyState (conns s ! c) = OPENED
      then emit (handlers (conns s ! c)) f s else s)"

definition onopen :: "nat \<Rightarrow> sys \<Rightarrow> sys" where
  "onopen c s =
     (if c < length (conns s) \<and> readyState (conns s ! c) = CONNECTING
      then resolve (opener (conns s ! c)) (VSocket c)
             (s\<lparr>conns := (conns s)[c := (conns s ! c)\<lparr>readyState := OPENED\<rparr>]\<rparr>)
      else s)"

definition onerror :: "nat \<Rightarrow> bool \<Rightarrow> string \<Rightarrow> sys \<Rightarrow> sys" where
  "onerror c cyclic m s =
     (if c < length (conns s)
      then if cyclic
           then s\<lparr>uncaught := uncaught s @ [TypeError ''Converting circular structure to JSON'']\<rparr>
           else reject (opener (conns s ! c)) (Error m) s
      else s)"

definition onclose :: "nat \<Rightarrow> sys \<Rightarrow> sys" where
  "onclose c s =
     (if c < length (conns s) \<and> readyState (conns s ! c) \<noteq> CLOSED
      then reject (opener (conns s ! c)) (Error ''ws closed'')
             (s\<lparr>conns := (conns s)[c := (conns s ! c)\<lparr>readyState := CLOSED\<rparr>]\<rparr>)
      else s)"

section \<open>bcx.ts\<close>

text \<open>
  The class \<open>Bcx\<close>. Its source follows the tests in integration.spec.ts, and the line
  numbers given for it are lines of that file.
\<close>

definition Bcx :: "string option \<Rightarrow> sys" where
  "Bcx secret =
     \<lparr>conns = [], ws = None, listeners = [], isAuthed = False, apiSecret = secret,
      isSubscribedTrading = False, promises = [], jobs = [], outbox = [], cells = [],
      calls = [], unhandled = [], uncaught = [], returned = []\<rparr>"

definition enforceAuthToken :: "string \<Rightarrow> sys \<Rightarrow> error option" where
  "enforceAuthToken method s =
     (if truthy (apiSecret s) then None
      else Some (Error (method @
        '' requires an api secret to be supplied as an argument during the Bcx class initialisation.'')))"

text \<open>An async method that throws returns a rejected promise.\<close>

definition rejected :: "error \<Rightarrow> sys \<Rightarrow> pid \<times> sys" where
  "rejected e s = (let (p, s1) = newPromise s in (p, reject p e s1))"

definition levelChannel :: "MarketLevel option \<Rightarrow> Channel" where
  "levelChannel level = (case level of Some L3 \<Rightarrow> MARKET_L3 | _ \<Rightarrow> MARKET_L2)"

definition getTicker :: "string \<Rightarrow> sys \<Rightarrow> pid \<times> sys" where
  "getTicker symb s =
     (let (p, s1) = newPromise s;
          (q, s2) = subscribe TICKER (Some (SnapshotCb TICKER (Some [(''symbol'', symb)]) p))
                      (Some [(''symbol'', symb)]) None s1
      in (p, await q (CatchReject p) s2))"

definition subscribeTicker :: "string \<Rightarrow> callback \<Rightarrow> sys \<Rightarrow> pid \<times> sys" where
  "subscribeTicker symb cb s =
     (let (p, s1) = newPromise s;
          (q, s2) = subscribe TICKER (Some (ForwardCb cb p)) (Some [(''symbol'', symb)]) None s1
      in (p, await q (CatchReject p) s2))"

definition unsubscribeTicker :: "string \<Rightarrow> sys \<Rightarrow> pid \<times> sys" where
  "unsubscribeTicker symb s = unsubscribe TICKER (Some [(''symbol'', symb)]) s"

definition getMarket :: "string \<Rightarrow> MarketLevel option \<Rightarrow> sys \<Rightarrow> pid \<times> sys" where
  "getMarket symb level s =
     (let (p, s1) = newPromise s;
          (q, s2) = subscribe (levelChannel level)
                      (Some (SnapshotCb (levelChannel level) (Some [(''symbol'', symb)]) p))
                      (Some [(''symbol'', symb)]) None s1
      in (p, await q (CatchReject p) s2))"

definition subscribeMarket :: "string \<Rightarrow> MarketLevel option \<Rightarrow> callback \<Rightarrow> sys \<Rightarrow> pid \<times> sys" where
  "subscribeMarket symb level cb s =
     (let (p, s1) = newPromise s;
          (q, s2) = subscribe (levelChannel level) (Some (ForwardCb cb p))
                      (Some [(''symbol'', symb)]) None s1
      in (p, await q (CatchReject p) s2))"

definition unsubscribeMarket :: "string \<Rightarrow> MarketLevel option \<Rightarrow> sys \<Rightarrow> pid \<times> sys" where
  "unsubscribeMarket symb level s = unsubscribe (levelChannel level) (Some [(''symbol'', symb)]) s"

definition getBalances :: "sys \<Rightarrow> pid \<times> sys" where
  "getBalances s =
     (case enforceAuthToken ''getBalances()'' s of
        Some e \<Rightarrow> rejected e s
      | None \<Rightarrow>
          (let (p, s1) = newPromise s;
               (q, s2) = subscribe BALANCES (Some (SnapshotCb BALANCES None p)) (Some [])
                           (apiSecret s1) s1
           in (p, await q (CatchReject p) s2)))"

definition subscribeBalances :: "callback \<Rightarrow> sys \<Rightarrow> pid \<times> sys" where
  "subscribeBalances cb s =
     (case enforceAuthToken ''subscribeBalances()'' s of
        Some e \<Rightarrow> rejected e s
      | None \<Rightarrow>
          (let (p, s1) = newPromise s;
               (q, s2) = subscribe BALANCES (Some (ForwardCb cb p)) (Some []) (apiSecret s1) s1
           in (p, await q (CatchReject p) s2)))"

definition unsubscribeBalances :: "sys \<Rightarrow> error + pid \<times> sys" where
  "unsubscribeBalances s =
     (case enforceAuthToken ''unsubscribeBalances()'' s of
        Some e \<Rightarrow> Inl e
      | None \<Rightarrow> Inr (unsubscribe BALANCES None s))"

text \<open>
  \<open>subscribeTrading\<close> is not async: a missing secret is thrown at the caller. After
  \<open>reject(..)\<close> for a client that is subscribed already there is no \<open>return\<close>.
\<close>

definition subscribeTrading :: "callback \<Rightarrow> sys \<Rightarrow> error + pid \<times> sys" where
  "subscribeTrading cb s =
     (case enforceAuthToken ''createOrder()'' s of
        Some e \<Rightarrow> Inl e
      | None \<Rightarrow>
          (let (p, s1) = newPromise s;
               s2 = (if isSubscribedTrading s1
                     then reject p (Error ''You are already subscribed to trading'') s1 else s1);
               (q, s3) = subscribe TRADING (Some (TradingCb cb p)) (Some []) (apiSecret s2) s2
           in Inr (p, await q (CatchReject p) s3)))"

definition unsubcribeTrading :: "sys \<Rightarrow> error + pid \<times> sys" where
  "unsubcribeTrading s =
     (case enforceAuthToken ''unsubcribeTrading()'' s of
        Some e \<Rightarrow> Inl e
      | None \<Rightarrow>
          if \<not> isSubscribedTrading s
          then Inr (rejected (Thrown ''You not subscribed to trading'') s)
          else (let (q, s1) = unsubscribe TRADING None s;
                    (p, s2) = newPromise s1
                in Inr (p, await q (ClearTradingFlag p) s2)))"

definition createOrder :: "OrderCreationRequest \<Rightarrow> sys \<Rightarrow> pid \<times> sys" where
  "createOrder order s =
     (case enforceAuthToken ''createOrder()'' s of
        Some e \<Rightarrow> rejected e s
      | None \<Rightarrow>
          (let (p, s1) = newPromise s in
           if isSubscribedTrading s1
           then (let (q, s2) = send \<lparr>action = NEW_ORDER_SINGLE, rchannel = TRADING,
                                      rfields = (''clOrdID'', req_clOrdID order) # req_fields order\<rparr>
                                 (apiSecret s1) s1
                 in (p, await q (ReturnUndefined p) s2))
           else (case subscribeTrading (CreateOrderCb (req_clOrdID order) p) s1 of
                   Inl e \<Rightarrow> (p, reject p e s1)
                 | Inr (q, s2) \<Rightarrow> (p, await q Dropped s2))))"

definition getOpenOrders :: "sys \<Rightarrow> pid \<times> sys" where
  "getOpenOrders s =
     (case enforceAuthToken ''getOpenOrders()'' s of
        Some e \<Rightarrow> rejected e s
      | None \<Rightarrow>
          if isSubscribedTrading s
          then rejected
                 (Error (''You can't fetch open orders if you're subscribed to trading. Either end your '' @
                  ''subscription and make this call or restart it catching the 'SNAPSHOT' event '' @
                  ''which includes your open orders'')) s
          else (let (p, s1) = newPromise s in
                case subscribeTrading (OpenOrdersCb p) s1 of
                  Inl e \<Rightarrow> (p, reject p e s1)
                | Inr (q, s2) \<Rightarrow> (p, await q (CatchReject p) s2)))"

definition getOrderByClientOrderId :: "string \<Rightarrow> sys \<Rightarrow> pid \<times> sys" where
  "getOrderByClientOrderId key s =
     (case enforceAuthToken ''getOrder()'' s of
        Some e \<Rightarrow> rejected e s
      | None \<Rightarrow>
          (let (p, s1) = newPromise s;
               (q, s2) = getOpenOrders s1
           in (p, await q (FindOrder p True key) s2)))"

definition getOrder :: "string \<Rightarrow> sys \<Rightarrow> pid \<times> sys" where
  "getOrder key s =
     (case enforceAuthToken ''getOrder()'' s of
        Some e \<Rightarrow> rejected e s
      | None \<Rightarrow>
          (let (p, s1) = newPromise s;
               (q, s2) = getOpenOrders s1
           in (p, await q (FindOrder p False key) s2)))"

definition cancelRequest :: "string \<Rightarrow> request" where
  "cancelRequest oid =
     \<lparr>action = CANCEL_ORDER_REQUEST, rchannel = TRADING, rfields = [(''orderID'', oid)]\<rparr>"

definition cancelOrder :: "string \<Rightarrow> sys \<Rightarrow> pid \<times> sys" where
  "cancelOrder oid s =
     (case enforceAuthToken ''cancelOrder()'' s of
        Some e \<Rightarrow> rejected e s
      | None \<Rightarrow>
          (let (p, s1) = newPromise s in
           if isSubscribedTrading s1
           then (let (q, s2) = send (cancelRequest oid) (apiSecret s1) s1
                 in (p, await q (ReturnUndefined p) s2))
           else (case subscribeTrading (CancelOrderCb oid p) s1 of
                   Inl e \<Rightarrow> (p, reject p e s1)
                 | Inr (q, s2) \<Rightarrow> (p, await q (CancelOrderSubscribed p oid) s2))))"

definition cancelAllOrders :: "sys \<Rightarrow> pid \<times> sys" where
  "cancelAllOrders s =
     (case enforceAuthToken ''cancelAllOrders()'' s of
        Some e \<Rightarrow> rejected e s
      | None \<Rightarrow>
          if isSubscribedTrading s
          then rejected
                 (Error (''You can't cancel all open orders if you're subscribed to trading. Either end '' @
                    ''your subscription and make this call again or restart it catching '' @
                    ''the 'SNAPSHOT' event which includes your open orders, then cancel '' @
                    ''them individually'')) s
          else (let (p, s1) = newPromise s;
                    (q, s2) = getOpenOrders s1
                in (p, await q (CancelAllGotOrders p) s2)))"

text \<open>The loop of \<open>cancelAllOrders\<close> from index \<open>i\<close> to its next \<open>await send(..)\<close>.\<close>

definition cancelAllFrom :: "pid \<Rightarrow> nat \<Rightarrow> nat \<Rightarrow> sys \<Rightarrow> sys" where
  "cancelAllFrom p cell i s =
     (if i < length (ordersOf cell s)
      then (let (q, s1) = send (cancelRequest (orderID (ordersOf cell s ! i))) None s
            in await q (CancelAllSent p cell (Suc i)) s1)
      else s)"

definition Bcx_flush :: "sys \<Rightarrow> sys" where
  "Bcx_flush s = flush (s\<lparr>apiSecret := None, isSubscribedTrading := False\<rparr>)"

definition setAuthenticationToken :: "string \<Rightarrow> sys \<Rightarrow> sys" where
  "setAuthenticationToken t s = s\<lparr>apiSecret := Some t\<rparr>"

section \<open>Microtasks\<close>

text \<open>
  A reaction runs with the outcome of the promise it waited for. Microtasks run first in,
  first out, one for each \<open>await\<close>; the callback of \<open>_ws.send\<close> is called at once.
\<close>

fun run :: "cont \<Rightarrow> error + val \<Rightarrow> sys \<Rightarrow> sys" where
  "run (SubscribeConnected p ch l ps tok) (Inr v) s =
     (case v of VSocket c \<Rightarrow> subscribe2 p ch l ps tok (s\<lparr>ws := Some c\<rparr>) | _ \<Rightarrow> s)"
| "run (SubscribeConnected p ch l ps tok) (Inl e) s = reject p e s"
| "run (SubscribeAuthed p ch cb ps) (Inr v) s = subscribe3 p ch cb ps s"
| "run (SubscribeAuthed p ch cb ps) (Inl e) s = reject p e s"
| "run (SendConnected p req tok) (Inr v) s =
     (case v of VSocket c \<Rightarrow> send2 p req tok (s\<lparr>ws := Some c\<rparr>) | _ \<Rightarrow> s)"
| "run (SendConnected p req tok) (Inl e) s = reject p e s"
| "run (SendAuthed p req) (Inr v) s = send3 p req s"
| "run (SendAuthed p req) (Inl e) s = reject p e s"
| "run (CatchReject p) (Inr v) s = s"
| "run (CatchReject p) (Inl e) s = reject p e s"
| "run (ThenResolve p x) (Inr v) s = resolve p x s"
| "run (ThenResolve p x) (Inl e) s = s\<lparr>unhandled := unhandled s @ [e]\<rparr>"
| "run (ThenReject p x) (Inr v) s = reject p x s"
| "run (ThenReject p x) (Inl e) s = s\<lparr>unhandled := unhandled s @ [e]\<rparr>"
| "run (ThenResolveCell p cell) (Inr v) s = resolve p (VOrders (ordersOf cell s)) s"
| "run (ThenResolveCell p cell) (Inl e) s = s\<lparr>unhandled := unhandled s @ [e]\<rparr>"
| "run (ReturnUndefined p) (Inr v) s = resolve p VUndefined s"
| "run (ReturnUndefined p) (Inl e) s = reject p e s"
| "run (ClearTradingFlag p) (Inr v) s = resolve p VUndefined (s\<lparr>isSubscribedTrading := False\<rparr>)"
| "run (ClearTradingFlag p) (Inl e) s = reject p e s"
| "run (FindOrder p byClient key) (Inr v) s =
     (case v of
        VOrders os \<Rightarrow>
          (case find (\<lambda>order. (if byClient then clOrdID order else orderID order) = key) os of
             None \<Rightarrow>
               reject p (Error (''Order with '' @ (if byClient then ''clOrdID '' else ''orderId '')
                                 @ key @ '' not found'')) s
           | Some order \<Rightarrow> resolve p (VOrder order) s)
      | _ \<Rightarrow> reject p (TypeError ''Cannot read property find of undefined'') s)"
| "run (FindOrder p byClient key) (Inl e) s = reject p e s"
| "run (CancelOrderSubscribed p oid) (Inr v) s =
     (let (q, s1) = send (cancelRequest oid) (apiSecret s) s in await q (CatchReject p) s1)"
| "run (CancelOrderSubscribed p oid) (Inl e) s = reject p e s"
| "run (CancelAllGotOrders p) (Inr v) s =
     (case v of
        VOrders os \<Rightarrow>
          (let s1 = (if os = [] then resolve p VUndefined s else s);
               cell = length (cells s1);
               s2 = s1\<lparr>cells := cells s1 @ [os]\<rparr>
           in case subscribeTrading (CancelAllCb cell p) s2 of
                Inl e \<Rightarrow> reject p e s2
              | Inr (q, s3) \<Rightarrow> await q (CancelAllSubscribed p cell) s3)
      | _ \<Rightarrow> reject p (TypeError ''Cannot read property length of undefined'') s)"
| "run (CancelAllGotOrders p) (Inl e) s = reject p e s"
| "run (CancelAllSubscribed p cell) (Inr v) s = cancelAllFrom p cell 0 s"
| "run (CancelAllSubscribed p cell) (Inl e) s = reject p e s"
| "run (CancelAllSent p cell i) (Inr v) s = cancelAllFrom p cell i s"
| "run (CancelAllSent p cell i) (Inl e) s = reject p e s"
| "run Dropped (Inr v) s = s"
| "run Dropped (Inl e) s = s\<lparr>unhandled := unhandled s @ [e]\<rparr>"

text \<open>
  The microtask queue is emptied after every call and every socket event; \<open>None\<close> when
  the given number of microtasks does not empty it.
\<close>

fun drain :: "nat \<Rightarrow> sys \<Rightarrow> sys option" where
  "drain 0 s = (if jobs s = [] then Some s else None)"
| "drain (Suc n) s =
     (case jobs s of
        [] \<Rightarrow> Some s
      | job # rest \<Rightarrow> drain n (run (fst job) (snd job) (s\<lparr>jobs := rest\<rparr>)))"

section \<open>The public interface and the environment\<close>

text \<open>
  The methods of the \<open>Bcx\<close> class and the four exports of socket.ts. A callback of the
  user is a number: the model records which callback was called with which frame.
\<close>

datatype call =
  GetTicker string
| SubscribeTicker string nat
| UnsubscribeTicker string
| GetMarket string "MarketLevel option"
| SubscribeMarket string "MarketLevel option" nat
| UnsubscribeMarket string "MarketLevel option"
| GetBalances
| SubscribeBalances nat
| UnsubscribeBalances
| SubscribeTrading nat
| UnsubcribeTrading
| CreateOrder OrderCreationRequest
| GetOrderByClientOrderId string
| GetOrder string
| GetOpenOrders
| CancelOrder string
| CancelAllOrders
| Flush
| SetAuthenticationToken string
| Subscribe Channel "nat option" "params option" "string option"
| Unsubscribe Channel "params option"
| Send request "string option"
| SocketFlush

datatype stimulus =
  Call call
| Message nat frame
| Open nat
| Failure nat bool string
| Close nat

definition promised :: "pid \<times> sys \<Rightarrow> sys" where
  "promised r = (snd r)\<lparr>returned := returned (snd r) @ [Inr (fst r)]\<rparr>"

definition thrown_or_promised :: "sys \<Rightarrow> error + pid \<times> sys \<Rightarrow> sys" where
  "thrown_or_promised s r =
     (case r of Inl e \<Rightarrow> s\<lparr>returned := returned s @ [Inl e]\<rparr> | Inr x \<Rightarrow> promised x)"

fun invoke :: "call \<Rightarrow> sys \<Rightarrow> sys" where
  "invoke (GetTicker symb) s = promised (getTicker symb s)"
| "invoke (SubscribeTicker symb n) s = promised (subscribeTicker symb (UserCallback n) s)"
| "invoke (UnsubscribeTicker symb) s = promised (unsubscribeTicker symb s)"
| "invoke (GetMarket symb level) s = promised (getMarket symb level s)"
| "invoke (SubscribeMarket symb level n) s = promised (subscribeMarket symb level (UserCallback n) s)"
| "invoke (UnsubscribeMarket symb level) s = promised (unsubscribeMarket symb level s)"
| "invoke GetBalances s = promised (getBalances s)"
| "invoke (SubscribeBalances n) s = promised (subscribeBalances (UserCallback n) s)"
| "invoke UnsubscribeBalances s = thrown_or_promised s (unsubscribeBalances s)"
| "invoke (SubscribeTrading n) s = thrown_or_promised s (subscribeTrading (UserCallback n) s)"
| "invoke UnsubcribeTrading s = thrown_or_promised s (unsubcribeTrading s)"
| "invoke (CreateOrder order) s = promised (createOrder order s)"
| "invoke (GetOrderByClientOrderId key) s = promised (getOrderByClientOrderId key s)"
| "invoke (GetOrder key) s = promised (getOrder key s)"
| "invoke GetOpenOrders s = promised (getOpenOrders s)"
| "invoke (CancelOrder oid) s = promised (cancelOrder oid s)"
| "invoke CancelAllOrders s = promised (cancelAllOrders s)"
| "invoke Flush s = Bcx_flush s"
| "invoke (SetAuthenticationToken t) s = setAuthenticationToken t s"
| "invoke (Subscribe ch n ps tok) s = promised (subscribe ch (map_option UserCallback n) ps tok s)"
| "invoke (Unsubscribe ch ps) s = promised (unsubscribe ch ps s)"
| "invoke (Send req tok) s = promised (send req tok s)"
| "invoke SocketFlush s = flush s"

fun react :: "stimulus \<Rightarrow> sys \<Rightarrow> sys" where
  "react (Call c) s = invoke c s"
| "react (Message c f) s = onmessage c f s"
| "react (Open c) s = onopen c s"
| "react (Failure c cyclic m) s = onerror c cyclic m s"
| "react (Close c) s = onclose c s"

text \<open>A frame that has the envelope only.\<close>

definition envelope :: "Channel \<Rightarrow> ChannelEvent \<Rightarrow> frame" where
  "envelope ch e =
     \<lparr>channel = ch, event = e, text' = None, symbol = None, upd_clOrdID = None,
      upd_orderID = None, upd_ordStatus = None, orders = None\<rparr>"

definition step :: "nat \<Rightarrow> stimulus \<Rightarrow> sys \<Rightarrow> sys option" where
  "step fuel x s = drain fuel (react x s)"

fun exec :: "nat \<Rightarrow> stimulus list \<Rightarrow> sys \<Rightarrow> sys option" where
  "exec fuel [] s = Some s"
| "exec fuel (x # xs) s =
     (case step fuel x s of None \<Rightarrow> None | Some s1 \<Rightarrow> exec fuel xs s1)"

text \<open>
  The state a client is in after the stimuli \<open>xs\<close>, each followed by its microtasks
  (ten are enough for every run below; \<open>exec\<close> tells when they are not).
\<close>

definition after :: "stimulus list \<Rightarrow> sys \<Rightarrow> sys" where
  "after xs s = (case exec 10 xs s of None \<Rightarrow> s | Some t \<Rightarrow> t)"

text \<open>The parameter object \<open>{ symbol: symbol }\<close> and a ticker frame for a symbol.\<close>

definition symbolOf :: "string \<Rightarrow> params" where
  "symbolOf x = [(''symbol'', x)]"

definition tick :: "ChannelEvent \<Rightarrow> string \<Rightarrow> frame" where
  "tick e x = (envelope TICKER e)\<lparr>symbol := Some x\<rparr>"

text \<open>
  Two subscriptions on one channel and one socket, for the user callbacks 0 and 1: the
  second \<open>subscribe\<close> is called once the socket of the first is open, and the server has
  acknowledged the channel once.
\<close>

definition subscribed_twice :: "Channel \<Rightarrow> params \<Rightarrow> params \<Rightarrow> stimulus list" where
  "subscribed_twice ch ps1 ps2 =
     [Call (Subscribe ch (Some 0) (Some ps1) None), Open 0,
      Call (Subscribe ch (Some 1) (Some ps2) None),
      Message 0 (envelope ch SUBSCRIBED)]"

text \<open>One subscription, for the user callback 0, that has received its snapshot.\<close>

definition one_ticker :: "stimulus list" where
  "one_ticker =
     [Call (Subscribe TICKER (Some 0) (Some (symbolOf ''BTC-USD'')) None), Open 0,
      Message 0 (tick SUBSCRIBED ''BTC-USD''), Message 0 (tick SNAPSHOT ''BTC-USD'')]"

text \<open>
  A subscribe with a token whose handshake is overtaken by a \<open>flush\<close>: the server's answer
  arrives on the socket the module has dropped, and the executor of \<open>subscribe\<close> pushes
  its Listener before \<open>_ws.on\<close> throws.
\<close>

definition flushed_in_handshake :: "stimulus list" where
  "flushed_in_handshake =
     [Call (Subscribe BALANCES (Some 0) None (Some ''k'')), Open 0, Call SocketFlush,
      Message 0 (envelope AUTH SUBSCRIBED)]"

text \<open>
  A subscribe that is still connecting when \<open>flush\<close> is called: its socket opens
  afterwards.
\<close>

definition flushed_while_connecting :: "stimulus list" where
  "flushed_while_connecting =
     [Call (Subscribe TICKER (Some 0) (Some (symbolOf ''BTC-USD'')) None), Call SocketFlush, Open 0]"

text \<open>An authenticated client with a subscription to its balances.\<close>

definition balances_subscribed :: "stimulus list" where
  "balances_subscribed =
     [Call (SubscribeBalances 0), Open 0, Message 0 (envelope AUTH SUBSCRIBED),
      Message 0 (envelope BALANCES SUBSCRIBED)]"

text \<open>
  A call of an authenticated client that is not subscribed to trading, up to the
  acknowledgement of its temporary trading subscription.
\<close>

definition established :: "call \<Rightarrow> stimulus list" where
  "established c =
     [Call c, Open 0, Message 0 (envelope AUTH SUBSCRIBED), Message 0 (envelope TRADING SUBSCRIBED)]"

definition order_X :: OrderCreationRequest where
  "order_X = \<lparr>req_clOrdID = ''X'', req_fields = [(''symbol'', ''BTC-USD'')]\<rparr>"

definition update_of :: "string \<Rightarrow> frame" where
  "update_of x = (envelope TRADING UPDATED)\<lparr>upd_clOrdID := Some x\<rparr>"

definition status_of :: "string \<Rightarrow> OrderStatus \<Rightarrow> frame" where
  "status_of oid st = (envelope TRADING UPDATED)\<lparr>upd_orderID := Some oid, upd_ordStatus := Some st\<rparr>"

definition rejection :: "Channel \<Rightarrow> string \<Rightarrow> frame" where
  "rejection ch reason = (envelope ch REJECTED)\<lparr>text' := Some reason\<rparr>"

definition snapshot :: "Order list \<Rightarrow> frame" where
  "snapshot os = (envelope TRADING SNAPSHOT)\<lparr>orders := Some os\<rparr>"

definition O1 :: Order where
  "O1 = \<lparr>orderID = ''1'', clOrdID = ''a'', ordStatus = ORD_OPEN\<rparr>"

definition O2 :: Order where
  "O2 = \<lparr>orderID = ''2'', clOrdID = ''b'', ordStatus = ORD_OPEN\<rparr>"

text \<open>
  \<open>cancelOrder(oid)\<close> of a client with the secret \<open>k\<close> that is not subscribed to trading:
  once its temporary subscription is acknowledged (the cancel command waits for the first
  frame the listener is called with), and after the snapshot of that subscription (the
  cancel command is written). The returned promise is pending in both. The update
  \<open>cancelOrder\<close> waits for is the one line 618 tests for, on the trading channel.
\<close>

definition cancel_started :: "string \<Rightarrow> string \<Rightarrow> sys" where
  "cancel_started oid k = after (established (CancelOrder oid)) (Bcx (Some k))"

definition cancel_pending :: "string \<Rightarrow> string \<Rightarrow> sys" where
  "cancel_pending oid k =
     after (established (CancelOrder oid) @ [Message 0 (snapshot [])]) (Bcx (Some k))"

definition cancelled_update :: "string \<Rightarrow> frame \<Rightarrow> bool" where
  "cancelled_update oid f =
     (channel f = TRADING \<and> event f = UPDATED \<and> upd_orderID f = Some oid \<and>
      upd_ordStatus f = Some ORD_CANCELLED)"

section \<open>Evaluation\<close>

lemma drain_numeral:
  "drain (numeral k) s =
     (case jobs s of
        [] \<Rightarrow> Some s
      | job # rest \<Rightarrow> drain (pred_numeral k) (run (fst job) (snd job) (s\<lparr>jobs := rest\<rparr>)))"
  by (simp add: numeral_eq_Suc)

lemmas socket_defs = newPromise_def settle_def resolve_def reject_def await_def ws_on_def
  addEventListener_def removeEventListener_def ws_send_def rejectOnError_def flush_def truthy_def
  escaped_def quoted_def JSON_stringify_def authenticate_def getSocket_def sameKey_def getListener_def
  send3_def send2_def send_def unsubscribe_def subscribe3_def subscribe2_def subscribe_def
  messageOf_def shown_def ordersOf_def onmessage_def onopen_def onerror_def onclose_def

lemmas bcx_defs = Bcx_def enforceAuthToken_def rejected_def levelChannel_def getTicker_def
  subscribeTicker_def unsubscribeTicker_def getMarket_def subscribeMarket_def unsubscribeMarket_def
  getBalances_def subscribeBalances_def unsubscribeBalances_def subscribeTrading_def
  unsubcribeTrading_def createOrder_def getOpenOrders_def getOrderByClientOrderId_def getOrder_def
  cancelRequest_def cancelOrder_def cancelAllOrders_def cancelAllFrom_def Bcx_flush_def
  setAuthenticationToken_def promised_def thrown_or_promised_def step_def envelope_def

lemmas scenario_defs = after_def symbolOf_def tick_def subscribed_twice_def one_ticker_def
  flushed_in_handshake_def flushed_while_connecting_def
  balances_subscribed_def established_def order_X_def update_of_def status_of_def rejection_def
  snapshot_def O1_def O2_def

lemmas eval_simps = socket_defs bcx_defs scenario_defs drain_numeral Let_def nth_append
  list_update_append

lemma sameKey_default:
  "sameKey ch (Some (case pso of None \<Rightarrow> [] | Some x \<Rightarrow> x)) = sameKey ch pso"
  by (cases pso) (auto simp add: sameKey_def fun_eq_iff)

text \<open>
  The serialisation tells parameter objects apart: equal texts come from equal objects
  only, so that comparing \<open>JSON.stringify\<close>s, as lines 119 and 131 do, is comparing the
  parameters.
\<close>

lemma escaped_unfold:
  "escaped [] = []"
  "escaped (c # x) = (if c = CHR 0x22 \<or> c = CHR 0x5C then [CHR 0x5C, c] else [c]) @ escaped x"
  by (simp_all add: escaped_def)

lemma escaped_inj:
  "escaped x @ CHR 0x22 # r = escaped y @ CHR 0x22 # r' \<Longrightarrow> x = y \<and> r = r'"
proof (induction x arbitrary: y)
  case Nil
  then show ?case by (cases y) (auto simp add: escaped_unfold split: if_splits)
next
  case (Cons c x)
  then show ?case by (cases y) (auto simp add: escaped_unfold split: if_splits)
qed

lemma quoted_inj: "quoted x @ r = quoted y @ r' \<Longrightarrow> x = y \<and> r = r'"
  using escaped_inj [of x r y r'] by (simp add: quoted_def)

lemma member_inj:
  "quoted k @ '':'' @ quoted v @ r = quoted k' @ '':'' @ quoted v' @ r' \<Longrightarrow>
   k = k' \<and> v = v' \<and> r = r'"
proof -
  assume a: "quoted k @ '':'' @ quoted v @ r = quoted k' @ '':'' @ quoted v' @ r'"
  from quoted_inj [OF a] have k: "k = k'" and b: "'':'' @ quoted v @ r = '':'' @ quoted v' @ r'"
    by simp_all
  from b have "quoted v @ r = quoted v' @ r'" by simp
  from quoted_inj [OF this] k show ?thesis by simp
qed

lemma members_cons:
  "members (kv # rest) @ r =
     quoted (fst kv) @ '':'' @ quoted (snd kv) @ (if rest = [] then r else '','' @ members rest @ r)"
  by (cases rest) simp_all

lemma members_inj: "members ps @ ''}'' = members qs @ ''}'' \<Longrightarrow> ps = qs"
proof (induction ps arbitrary: qs)
  case Nil
  show ?case
  proof (cases qs)
    case (Cons kv rest)
    from Nil [unfolded Cons members_cons] show ?thesis by (simp add: quoted_def)
  qed simp
next
  case (Cons kv ps)
  show ?case
  proof (cases qs)
    case Nil
    from Cons.prems [unfolded Nil members_cons] show ?thesis by (simp add: quoted_def)
  next
    case (Cons kv' qs')
    have e: "fst kv = fst kv' \<and> snd kv = snd kv' \<and>
      (if ps = [] then ''}'' else '','' @ members ps @ ''}'') =
      (if qs' = [] then ''}'' else '','' @ members qs' @ ''}'')"
      by (rule member_inj) (use Cons.prems [unfolded Cons members_cons] in simp)
    then have "members ps @ ''}'' = members qs' @ ''}''"
      by (auto split: if_splits)
    from Cons.IH [OF this] e Cons show ?thesis by (simp add: prod_eq_iff)
  qed
qed

lemma JSON_stringify_inj:
  "JSON_stringify x = JSON_stringify y \<Longrightarrow> x = y"
proof (cases x; cases y)
  fix ps qs
  assume x: "x = Some ps" and y: "y = Some qs"
  assume "JSON_stringify x = JSON_stringify y"
  with x y have "members ps @ ''}'' = members qs @ ''}''"
    by (simp add: JSON_stringify_def)
  from members_inj [OF this] x y show "x = y" by simp
qed (simp_all add: JSON_stringify_def)

section \<open>Duplicate subscriptions\<close>

text \<open>
  C5. A \<open>subscribe\<close> for a key (channel, parameter set) that already has a Listener is
  rejected with the duplicate-subscription error and changes nothing else: no frame is
  written and the registry is as it was. On a client that holds its socket the promise
  is returned rejected, no handler is added and no microtask is queued. A client that
  has a Listener and no socket (a \<open>flush\<close> during the handshake of the first subscribe
  leaves one) connects first, and the promise is rejected as soon as the socket is open.
  (\<open>listener\<close> is a function by its type, hence \<open>Some cb\<close>.)
\<close>

theorem subscribe_duplicate_rejected:
  assumes "getListener ch pso s \<noteq> None"
  shows "(ws s \<noteq> None \<longrightarrow>
            subscribe ch (Some cb) pso authToken s =
              (length (promises s),
               s\<lparr>promises := promises s @
                    [Rejected (Error (''You already have a listener set for channel ''
                                        @ channel_name ch))]\<rparr>)) \<and>
         (ws s = None \<and> jobs s = [] \<longrightarrow>
            fst (subscribe ch (Some cb) pso authToken s) = length (promises s) \<and>
            outbox (snd (subscribe ch (Some cb) pso authToken s)) = outbox s \<and>
            listeners (snd (subscribe ch (Some cb) pso authToken s)) = listeners s \<and>
            map_option (\<lambda>t. (promises t ! length (promises s), outbox t, listeners t))
              (step 1 (Open (length (conns s))) (snd (subscribe ch (Some cb) pso authToken s))) =
            Some (Rejected (Error (''You already have a listener set for channel ''
                                     @ channel_name ch)),
                  outbox s, listeners s))"
  using assms
  by (auto simp add: step_def onopen_def subscribe_def subscribe2_def newPromise_def getSocket_def
        await_def resolve_def getListener_def sameKey_default
        reject_def settle_def nth_append list_update_append Let_def)

theorem subscribe_duplicate_rejected_witness:
  "exec 10 one_ticker (Bcx None) = Some (after one_ticker (Bcx None)) \<and>
   getListener TICKER (Some (symbolOf ''BTC-USD'')) (after one_ticker (Bcx None)) \<noteq> None \<and>
   ws (after one_ticker (Bcx None)) \<noteq> None \<and>
   outbox (snd (subscribe TICKER (Some (UserCallback 1)) (Some (symbolOf ''BTC-USD'')) None
                  (after one_ticker (Bcx None)))) =
     [(0, \<lparr>action = SUBSCRIBE, rchannel = TICKER, rfields = symbolOf ''BTC-USD''\<rparr>)] \<and>
   listeners (snd (subscribe TICKER (Some (UserCallback 1)) (Some (symbolOf ''BTC-USD'')) None
                  (after one_ticker (Bcx None)))) = listeners (after one_ticker (Bcx None)) \<and>
   promises (snd (subscribe TICKER (Some (UserCallback 1)) (Some (symbolOf ''BTC-USD'')) None
                  (after one_ticker (Bcx None)))) ! 2 =
     Rejected (Error ''You already have a listener set for channel ticker'') \<and>
   exec 10 flushed_in_handshake (Bcx None) = Some (after flushed_in_handshake (Bcx None)) \<and>
   getListener BALANCES None (after flushed_in_handshake (Bcx None)) \<noteq> None \<and>
   ws (after flushed_in_handshake (Bcx None)) = None \<and>
   jobs (after flushed_in_handshake (Bcx None)) = [] \<and>
   map_option (\<lambda>t. (promises t ! 3, outbox t, map lchannel (listeners t)))
     (step 1 (Open 1)
        (snd (subscribe BALANCES (Some (UserCallback 1)) None None
           (after flushed_in_handshake (Bcx None))))) =
     Some (Rejected (Error ''You already have a listener set for channel balances''),
           [(0, \<lparr>action = SUBSCRIBE, rchannel = AUTH, rfields = [(''token'', ''k'')]\<rparr>)],
           [BALANCES])"
proof -
  let ?s = "after one_ticker (Bcx None)"
  let ?u = "after flushed_in_handshake (Bcx None)"
  have e: "exec 10 one_ticker (Bcx None) = Some ?s"
    "exec 10 flushed_in_handshake (Bcx None) = Some ?u"
    by (simp_all add: eval_simps)
  have l: "getListener TICKER (Some (symbolOf ''BTC-USD'')) ?s \<noteq> None"
    by (simp add: eval_simps)
  have w: "ws ?s \<noteq> None" by (simp add: eval_simps)
  have n: "length (promises ?s) = 2" by (simp add: eval_simps)
  have o: "outbox ?s =
      [(0, \<lparr>action = SUBSCRIBE, rchannel = TICKER, rfields = symbolOf ''BTC-USD''\<rparr>)]"
    by (simp add: eval_simps)
  have l': "getListener BALANCES None ?u \<noteq> None" by (simp add: eval_simps)
  have u: "ws ?u = None" "jobs ?u = []" "length (promises ?u) = 3" "length (conns ?u) = 1"
    "outbox ?u = [(0, \<lparr>action = SUBSCRIBE, rchannel = AUTH, rfields = [(''token'', ''k'')]\<rparr>)]"
    "map lchannel (listeners ?u) = [BALANCES]"
    by (simp_all add: eval_simps)
  have 1: "subscribe TICKER (Some (UserCallback 1)) (Some (symbolOf ''BTC-USD'')) None ?s =
             (length (promises ?s),
              ?s\<lparr>promises := promises ?s @
                   [Rejected (Error (''You already have a listener set for channel ''
                                       @ channel_name TICKER))]\<rparr>)"
    using subscribe_duplicate_rejected [OF l, where cb = "UserCallback 1" and authToken = None] w
    by blast
  have 2: "map_option (\<lambda>t. (promises t ! length (promises ?u), outbox t, listeners t))
              (step 1 (Open (length (conns ?u)))
                 (snd (subscribe BALANCES (Some (UserCallback 1)) None None ?u))) =
            Some (Rejected (Error (''You already have a listener set for channel ''
                                     @ channel_name BALANCES)),
                  outbox ?u, listeners ?u)"
    using subscribe_duplicate_rejected [OF l', where cb = "UserCallback 1" and authToken = None] u
    by blast
  have 3: "map_option (\<lambda>t. (promises t ! 3, outbox t, map lchannel (listeners t)))
              (step 1 (Open 1) (snd (subscribe BALANCES (Some (UserCallback 1)) None None ?u))) =
            Some (Rejected (Error ''You already have a listener set for channel balances''),
                  [(0, \<lparr>action = SUBSCRIBE, rchannel = AUTH, rfields = [(''token'', ''k'')]\<rparr>)],
                  [BALANCES])"
  proof (cases "step 1 (Open 1) (snd (subscribe BALANCES (Some (UserCallback 1)) None None ?u))")
    case None
    with 2 u show ?thesis by simp
  next
    case (Some t)
    with 2 u show ?thesis by auto
  qed
  have 4: "outbox (snd (subscribe TICKER (Some (UserCallback 1)) (Some (symbolOf ''BTC-USD'')) None ?s))
             = [(0, \<lparr>action = SUBSCRIBE, rchannel = TICKER, rfields = symbolOf ''BTC-USD''\<rparr>)]"
    "listeners (snd (subscribe TICKER (Some (UserCallback 1)) (Some (symbolOf ''BTC-USD'')) None ?s))
       = listeners ?s"
    "promises (snd (subscribe TICKER (Some (UserCallback 1)) (Some (symbolOf ''BTC-USD'')) None ?s)) ! 2
       = Rejected (Error ''You already have a listener set for channel ticker'')"
    unfolding 1 snd_conv by (simp_all add: n o nth_append)
  from e l w 4 l' u(1,2) 3 show ?thesis by blast
qed

section \<open>flush\<close>




section \<open>Routing of inbound frames\<close>

text \<open>
  C1. Two subscriptions on one channel are told apart by their parameters in the registry
  only: \<open>socketHandler\<close> compares the channel of a frame and nothing else (lines 220-221).
  With the tickers of BTC-USD (callback 0) and ETH-USD (callback 1) subscribed on one
  socket, an ETH-USD frame is passed to both callbacks, the one of BTC-USD first, and
  the one acknowledgement of the channel resolves the promises of both \<open>subscribe\<close>s. The
  same frame reaches both callbacks when the two are subscribed with
  \<open>Bcx.subscribeTicker\<close>, whose test \<open>Subscribe to different tickers in parallel\<close> expects
  each callback to see its own symbol only.
\<close>

theorem ticker_frame_reaches_other_symbol:
  "map_option calls
     (exec 10 (subscribed_twice TICKER (symbolOf ''BTC-USD'') (symbolOf ''ETH-USD'') @ [Message 0 (tick UPDATED ''ETH-USD'')])
        (Bcx None)) =
     Some [(0, tick UPDATED ''ETH-USD''), (1, tick UPDATED ''ETH-USD'')] \<and>
   map_option (\<lambda>s. (returned s, promises s ! 0, promises s ! 2))
     (exec 10 (subscribed_twice TICKER (symbolOf ''BTC-USD'') (symbolOf ''ETH-USD'')) (Bcx None)) =
     Some ([Inr 0, Inr 2], Fulfilled VUndefined, Fulfilled VUndefined) \<and>
   map_option calls
     (exec 10 [Call (SubscribeTicker ''BTC-USD'' 0), Open 0, Call (SubscribeTicker ''ETH-USD'' 1),
               Message 0 (tick SUBSCRIBED ''BTC-USD''), Message 0 (tick SUBSCRIBED ''ETH-USD''),
               Message 0 (tick UPDATED ''ETH-USD'')] (Bcx None)) =
     Some [(0, tick UPDATED ''ETH-USD''), (1, tick UPDATED ''ETH-USD'')]"
  by (simp add: eval_simps)

section \<open>unsubscribe\<close>

text \<open>
  C3. \<open>unsubscribe\<close> keeps the Listeners that differ from the key in the channel and in
  the parameters both: with the tickers of BTC-USD and ETH-USD registered, unsubscribing
  BTC-USD empties the registry. The handler of ETH-USD stays on the socket next to
  \<open>tmpSocketHandler\<close>, finds no Listener, and an ETH-USD frame reaches no callback.
\<close>

theorem unsubscribe_drops_listeners_of_the_channel:
  "map_option (\<lambda>s. map params (listeners s)) (exec 10 (subscribed_twice TICKER (symbolOf ''BTC-USD'') (symbolOf ''ETH-USD'')) (Bcx None)) =
     Some [symbolOf ''BTC-USD'', symbolOf ''ETH-USD''] \<and>
   map_option (\<lambda>s. (listeners s, handlers (conns s ! 0), map (action \<circ> snd) (outbox s)))
     (exec 10 (subscribed_twice TICKER (symbolOf ''BTC-USD'') (symbolOf ''ETH-USD'') @ [Call (Unsubscribe TICKER (Some (symbolOf ''BTC-USD'')))])
        (Bcx None)) =
     Some ([],
           [(ViaOn, SocketHandler TICKER (symbolOf ''ETH-USD'') 2),
            (ViaAddEventListener,
             TmpSocketHandler TICKER (symbolOf ''BTC-USD'') (UserCallback 0) (SocketHandler TICKER (symbolOf ''BTC-USD'') 0) 3)],
           [SUBSCRIBE, SUBSCRIBE, UNSUBSCRIBE]) \<and>
   map_option calls
     (exec 10 (subscribed_twice TICKER (symbolOf ''BTC-USD'') (symbolOf ''ETH-USD'') @
                 [Call (Unsubscribe TICKER (Some (symbolOf ''BTC-USD''))), Message 0 (tick UPDATED ''ETH-USD'')])
        (Bcx None)) = Some []"
  by (simp add: eval_simps)

text \<open>
  C6. When the server rejects an unsubscribe, the promise (promise 2) is rejected with
  the server's text and the Listener is pushed back, but its handler is attached again
  with \<open>addEventListener\<close>: it is now called with a \<open>MessageEvent\<close>, reads the unparsed
  \<open>data.data\<close> as the frame and finds no channel in it. The callback that received the
  snapshot before receives nothing afterwards.
\<close>

theorem rejected_unsubscribe_leaves_deaf_listener:
  "map_option calls (exec 10 one_ticker (Bcx None)) = Some [(0, tick SNAPSHOT ''BTC-USD'')] \<and>
   map_option
     (\<lambda>s. (returned s, promises s ! 2, map clientListener (listeners s), handlers (conns s ! 0),
            calls s))
     (exec 10 (one_ticker @
                 [Call (Unsubscribe TICKER (Some (symbolOf ''BTC-USD''))), Message 0 (rejection TICKER ''no''),
                  Message 0 (tick UPDATED ''BTC-USD'')]) (Bcx None)) =
     Some ([Inr 0, Inr 2], Rejected (Error ''no''), [UserCallback 0],
           [(ViaAddEventListener, SocketHandler TICKER (symbolOf ''BTC-USD'') 0)],
           [(0, tick SNAPSHOT ''BTC-USD'')])"
  by (simp add: eval_simps)

section \<open>authenticate\<close>

text \<open>
  C9. \<open>authHandler\<close> removes itself when the server answers \<open>subscribed\<close> and not when it
  answers \<open>rejected\<close>: after a rejected handshake (here the one \<open>send\<close> starts for a token)
  the promise of \<open>authenticate\<close>, promise 2, is rejected with the server's text,
  \<open>isAuthed\<close> is false and the handler is still registered on the socket.
\<close>

theorem authHandler_stays_after_rejection:
  "map_option (\<lambda>s. (promises s ! 2, isAuthed s, handlers (conns s ! 0)))
     (exec 10 [Call (Send \<lparr>action = SUBSCRIBE, rchannel = BALANCES, rfields = []\<rparr> (Some ''k'')),
               Open 0, Message 0 (rejection AUTH ''no'')] (Bcx None)) =
     Some (Rejected (Error ''no''), False, [(ViaAddEventListener, AuthHandler 0 2)]) \<and>
   map_option (\<lambda>s. (promises s ! 2, isAuthed s, handlers (conns s ! 0)))
     (exec 10 [Call (Send \<lparr>action = SUBSCRIBE, rchannel = BALANCES, rfields = []\<rparr> (Some ''k'')),
               Open 0, Message 0 (envelope AUTH SUBSCRIBED)] (Bcx None)) =
     Some (Fulfilled VUndefined, True, [])"
  by (simp add: eval_simps)

section \<open>One-shot order operations\<close>

text \<open>
  C4. \<open>createOrder\<close> on a client that is not subscribed to trading returns promise 0.
  An update with another clOrdID, or a snapshot, leaves it pending; an update with the
  clOrdID of the request removes the Listener, writes the unsubscribe request and, once
  the server has acknowledged it, resolves the promise with the update. A \<open>rejected\<close>
  frame, however, is answered by \<open>socketHandler\<close> itself (it rejects the promise of
  \<open>subscribe\<close>, settled long ago) and never passed to the listener: the promise stays
  pending, the Listener stays registered and no unsubscribe request is written.
\<close>

theorem createOrder_never_sees_rejection:
  "map_option
     (\<lambda>s. (returned s, promises s ! 0, map lchannel (listeners s), map (action \<circ> snd) (outbox s),
            unhandled s))
     (exec 10 (established (CreateOrder order_X) @ [Message 0 (rejection TRADING ''no'')])
        (Bcx (Some ''k''))) =
     Some ([Inr 0], Pending [], [TRADING], [SUBSCRIBE, SUBSCRIBE], []) \<and>
   map_option (\<lambda>s. promises s ! 0)
     (exec 10 (established (CreateOrder order_X) @ [Message 0 (update_of ''Y'')])
        (Bcx (Some ''k''))) = Some (Pending []) \<and>
   map_option (\<lambda>s. promises s ! 0)
     (exec 10 (established (CreateOrder order_X) @ [Message 0 (snapshot [])])
        (Bcx (Some ''k''))) = Some (Pending []) \<and>
   map_option (\<lambda>s. (promises s ! 0, map lchannel (listeners s), map (action \<circ> snd) (outbox s)))
     (exec 10 (established (CreateOrder order_X) @
                 [Message 0 (update_of ''X''), Message 0 (envelope TRADING UNSUBSCRIBED)])
        (Bcx (Some ''k''))) =
     Some (Fulfilled (VFrame (update_of ''X'')), [], [SUBSCRIBE, SUBSCRIBE, UNSUBSCRIBE])"
  by (simp add: eval_simps)

text \<open>
  C7. \<open>cancelAllOrders\<close> returns promise 0. \<open>getOpenOrders\<close> leaves its temporary trading
  subscription registered, so the \<open>subscribeTrading\<close> that follows (promise 6) is a
  duplicate: with the open orders O1 and O2 the promise is rejected with the
  duplicate-subscription error and no cancel command is written. With no open order the
  promise is resolved with \<open>undefined\<close>, and the same rejected \<open>subscribeTrading\<close> follows,
  there being no \<open>return\<close>.
\<close>

theorem cancelAllOrders_rejected_as_duplicate:
  "map_option (\<lambda>s. (returned s, promises s ! 0, map (action \<circ> snd) (outbox s)))
     (exec 10 (established CancelAllOrders @ [Message 0 (snapshot [O1, O2])]) (Bcx (Some ''k''))) =
     Some ([Inr 0], Rejected (Error ''You already have a listener set for channel trading''),
           [SUBSCRIBE, SUBSCRIBE]) \<and>
   map_option
     (\<lambda>s. (promises s ! 0, promises s ! 6, map (action \<circ> snd) (outbox s),
            map clientListener (listeners s)))
     (exec 10 (established CancelAllOrders @ [Message 0 (snapshot [])]) (Bcx (Some ''k''))) =
     Some (Fulfilled VUndefined,
           Rejected (Error ''You already have a listener set for channel trading''),
           [SUBSCRIBE, SUBSCRIBE], [TradingCb (OpenOrdersCb 1) 2])"
  by (simp add: eval_simps)

lemma cancel_started_eq:
  "k \<noteq> [] \<Longrightarrow>
   exec 10 (established (CancelOrder oid)) (Bcx (Some k)) = Some (cancel_started oid k) \<and>
   promises (cancel_started oid k) ! 0 = Pending [] \<and>
   map (action \<circ> snd) (outbox (cancel_started oid k)) = [SUBSCRIBE, SUBSCRIBE]"
  by (simp add: cancel_started_def eval_simps)

lemma cancel_started_pending:
  assumes "k \<noteq> []" and "\<not> cancelled_update oid f"
  shows "map_option (\<lambda>t. promises t ! 0) (step 10 (Message 0 f) (cancel_started oid k)) =
           Some (Pending [])"
  using assms
  by (cases "event f") (auto simp add: cancel_started_def cancelled_update_def eval_simps)

lemma cancel_pending_eq:
  "k \<noteq> [] \<Longrightarrow> cancel_pending oid k =
     \<lparr>conns = [\<lparr>readyState = OPENED, handlers = [(ViaOn, SocketHandler TRADING [] 2)],
                opener = 3\<rparr>],
      ws = Some 0,
      listeners = [\<lparr>lchannel = TRADING, params = [],
                    clientListener = TradingCb (CancelOrderCb oid 0) 1,
                    socketHandler = SocketHandler TRADING [] 2\<rparr>],
      isAuthed = True, apiSecret = Some k, isSubscribedTrading = False,
      promises = [Pending [], Fulfilled VUndefined, Fulfilled VUndefined, Fulfilled (VSocket 0),
                  Fulfilled VUndefined, Fulfilled VUndefined, Fulfilled VUndefined],
      jobs = [],
      outbox = [(0, \<lparr>action = SUBSCRIBE, rchannel = AUTH, rfields = [(''token'', k)]\<rparr>),
                (0, \<lparr>action = SUBSCRIBE, rchannel = TRADING, rfields = []\<rparr>),
                (0, \<lparr>action = CANCEL_ORDER_REQUEST, rchannel = TRADING,
                     rfields = [(''orderID'', oid)]\<rparr>)],
      cells = [], calls = [], unhandled = [], uncaught = [], returned = [Inr 0]\<rparr>"
  by (simp add: cancel_pending_def eval_simps)

lemma cancel_pending_reached:
  "k \<noteq> [] \<Longrightarrow>
   exec 10 (established (CancelOrder oid) @ [Message 0 (snapshot [])]) (Bcx (Some k)) =
     Some (cancel_pending oid k)"
  by (simp add: cancel_pending_def eval_simps)

lemma cancel_pending_unmoved:
  assumes "k \<noteq> []" and "\<not> cancelled_update oid f"
  shows "step 10 (Message 0 f) (cancel_pending oid k) = Some (cancel_pending oid k)"
  using assms
  by (cases "event f") (auto simp add: cancel_pending_eq cancelled_update_def eval_simps)

lemma cancel_pending_unmoved_all:
  assumes "k \<noteq> []" and "\<forall>f \<in> set fs. \<not> cancelled_update oid f"
  shows "exec 10 (map (Message 0) fs) (cancel_pending oid k) = Some (cancel_pending oid k)"
  using assms by (induction fs) (simp_all add: cancel_pending_unmoved)

lemma cancel_pending_resolved:
  assumes "k \<noteq> []" and "cancelled_update oid f"
  shows "map_option (\<lambda>t. (listeners t, promises t ! 0, map (action \<circ> snd) (outbox t)))
           (step 10 (Message 0 f) (cancel_pending oid k)) =
           Some ([], Pending [], [SUBSCRIBE, SUBSCRIBE, CANCEL_ORDER_REQUEST, UNSUBSCRIBE]) \<and>
         map_option (\<lambda>t. promises t ! 0)
           (exec 10 [Message 0 f, Message 0 (envelope TRADING UNSUBSCRIBED)]
              (cancel_pending oid k)) = Some (Fulfilled (VFrame f))"
  using assms
  by (simp add: cancel_pending_eq cancelled_update_def eval_simps)

text \<open>
  C8. While \<open>cancelOrder(oid)\<close> of a client that is not subscribed to trading waits, its
  promise (promise 0) is pending, and a frame that is not an update of order \<open>oid\<close> with
  status cancelled leaves it pending, before the cancel command is written and after.
  After, such frames, however many and of whatever channel, event, order and status,
  leave the whole state as it is: the promise pending, the temporary subscription
  registered. An update of \<open>oid\<close> with status cancelled removes the subscription, and the
  promise is resolved with that update once the server has acknowledged the unsubscribe.
  The listener itself, in any state, does nothing on an update that fails line 618's
  test.
\<close>

theorem cancelOrder_waits_for_cancelled_update:
  assumes "k \<noteq> []"
  shows "exec 10 (established (CancelOrder oid)) (Bcx (Some k)) = Some (cancel_started oid k) \<and>
         promises (cancel_started oid k) ! 0 = Pending [] \<and>
         (\<not> cancelled_update oid f \<longrightarrow>
            map_option (\<lambda>t. promises t ! 0) (step 10 (Message 0 f) (cancel_started oid k)) =
              Some (Pending [])) \<and>
         exec 10 (established (CancelOrder oid) @ [Message 0 (snapshot [])]) (Bcx (Some k)) =
           Some (cancel_pending oid k) \<and>
         promises (cancel_pending oid k) ! 0 = Pending [] \<and>
         returned (cancel_pending oid k) = [Inr 0] \<and>
         map clientListener (listeners (cancel_pending oid k)) = [TradingCb (CancelOrderCb oid 0) 1] \<and>
         ((\<forall>f \<in> set fs. \<not> cancelled_update oid f) \<longrightarrow>
            exec 10 (map (Message 0) fs) (cancel_pending oid k) = Some (cancel_pending oid k)) \<and>
         (cancelled_update oid f \<longrightarrow>
            map_option (\<lambda>t. (listeners t, promises t ! 0, map (action \<circ> snd) (outbox t)))
              (step 10 (Message 0 f) (cancel_pending oid k)) =
              Some ([], Pending [], [SUBSCRIBE, SUBSCRIBE, CANCEL_ORDER_REQUEST, UNSUBSCRIBE]) \<and>
            map_option (\<lambda>t. promises t ! 0)
              (exec 10 [Message 0 f, Message 0 (envelope TRADING UNSUBSCRIBED)]
                 (cancel_pending oid k)) = Some (Fulfilled (VFrame f))) \<and>
         (event g = UPDATED \<and> \<not> (upd_orderID g = Some oid \<and> upd_ordStatus g = Some ORD_CANCELLED)
            \<longrightarrow> clientCall (CancelOrderCb oid p) g s = s)"
proof -
  have 1: "exec 10 (established (CancelOrder oid)) (Bcx (Some k)) = Some (cancel_started oid k)"
    "promises (cancel_started oid k) ! 0 = Pending []"
    using assms cancel_started_eq [where k = k and oid = oid] by blast+
  have 2: "\<not> cancelled_update oid f \<longrightarrow>
            map_option (\<lambda>t. promises t ! 0) (step 10 (Message 0 f) (cancel_started oid k)) =
              Some (Pending [])"
    using assms by (simp add: cancel_started_pending)
  have 3: "exec 10 (established (CancelOrder oid) @ [Message 0 (snapshot [])]) (Bcx (Some k)) =
             Some (cancel_pending oid k)"
    using assms by (rule cancel_pending_reached)
  have 4: "promises (cancel_pending oid k) ! 0 = Pending []"
    "returned (cancel_pending oid k) = [Inr 0]"
    "map clientListener (listeners (cancel_pending oid k)) = [TradingCb (CancelOrderCb oid 0) 1]"
    using assms by (simp_all add: cancel_pending_eq)
  have 5: "(\<forall>f \<in> set fs. \<not> cancelled_update oid f) \<longrightarrow>
            exec 10 (map (Message 0) fs) (cancel_pending oid k) = Some (cancel_pending oid k)"
    using assms by (simp add: cancel_pending_unmoved_all)
  have 6: "cancelled_update oid f \<longrightarrow>
            map_option (\<lambda>t. (listeners t, promises t ! 0, map (action \<circ> snd) (outbox t)))
              (step 10 (Message 0 f) (cancel_pending oid k)) =
              Some ([], Pending [], [SUBSCRIBE, SUBSCRIBE, CANCEL_ORDER_REQUEST, UNSUBSCRIBE]) \<and>
            map_option (\<lambda>t. promises t ! 0)
              (exec 10 [Message 0 f, Message 0 (envelope TRADING UNSUBSCRIBED)]
                 (cancel_pending oid k)) = Some (Fulfilled (VFrame f))"
    using assms cancel_pending_resolved [where k = k and oid = oid and f = f] by blast
  have 7: "event g = UPDATED \<and> \<not> (upd_orderID g = Some oid \<and> upd_ordStatus g = Some ORD_CANCELLED)
            \<longrightarrow> clientCall (CancelOrderCb oid p) g s = s"
    by auto
  from 1 2 3 4 5 6 7 show ?thesis by blast
qed

theorem cancelOrder_waits_for_cancelled_update_witness:
  "''k'' \<noteq> [] \<and>
   \<not> cancelled_update ''1'' (status_of ''1'' ORD_EXPIRED) \<and>
   \<not> cancelled_update ''1'' (status_of ''2'' ORD_CANCELLED) \<and>
   exec 10 (map (Message 0) [status_of ''1'' ORD_EXPIRED, status_of ''2'' ORD_CANCELLED])
     (cancel_pending ''1'' ''k'') = Some (cancel_pending ''1'' ''k'') \<and>
   promises (cancel_pending ''1'' ''k'') ! 0 = Pending [] \<and>
   cancelled_update ''1'' (status_of ''1'' ORD_CANCELLED) \<and>
   map_option (\<lambda>t. promises t ! 0)
     (exec 10 [Message 0 (status_of ''1'' ORD_CANCELLED), Message 0 (envelope TRADING UNSUBSCRIBED)]
        (cancel_pending ''1'' ''k'')) = Some (Fulfilled (VFrame (status_of ''1'' ORD_CANCELLED))) \<and>
   event (status_of ''1'' ORD_EXPIRED) = UPDATED \<and>
   clientCall (CancelOrderCb ''1'' 0) (status_of ''1'' ORD_EXPIRED) (cancel_pending ''1'' ''k'') =
     cancel_pending ''1'' ''k''"
proof -
  have k: "''k'' \<noteq> []" by simp
  have 1: "\<not> cancelled_update ''1'' (status_of ''1'' ORD_EXPIRED)"
    "\<not> cancelled_update ''1'' (status_of ''2'' ORD_CANCELLED)"
    by (simp_all add: cancelled_update_def status_of_def envelope_def)
  have 2: "cancelled_update ''1'' (status_of ''1'' ORD_CANCELLED)"
    by (simp add: cancelled_update_def status_of_def envelope_def)
  have 3: "event (status_of ''1'' ORD_EXPIRED) = UPDATED"
    "\<not> (upd_orderID (status_of ''1'' ORD_EXPIRED) = Some ''1'' \<and>
        upd_ordStatus (status_of ''1'' ORD_EXPIRED) = Some ORD_CANCELLED)"
    by (simp_all add: status_of_def envelope_def)
  have 4: "\<forall>f \<in> set [status_of ''1'' ORD_EXPIRED, status_of ''2'' ORD_CANCELLED].
             \<not> cancelled_update ''1'' f"
    using 1 by simp
  from cancelOrder_waits_for_cancelled_update
         [OF k, where oid = "''1''" and fs = "[status_of ''1'' ORD_EXPIRED, status_of ''2'' ORD_CANCELLED]"
            and f = "status_of ''1'' ORD_CANCELLED" and g = "status_of ''1'' ORD_EXPIRED"
            and p = 0 and s = "cancel_pending ''1'' ''k''"]
       k 1 2 3 4
  show ?thesis by blast
qed

section \<open>The trading flag\<close>

lemma flag_newPromise [simp]: "isSubscribedTrading (snd (newPromise s)) = isSubscribedTrading s"
  by (simp add: newPromise_def)

lemma flag_settle [simp]: "isSubscribedTrading (settle p r s) = isSubscribedTrading s"
  by (simp add: settle_def split: pstate.splits)

lemma flag_resolve [simp]: "isSubscribedTrading (resolve p v s) = isSubscribedTrading s"
  by (simp add: resolve_def)

lemma flag_reject [simp]: "isSubscribedTrading (reject p e s) = isSubscribedTrading s"
  by (simp add: reject_def)

lemma flag_await [simp]: "isSubscribedTrading (await p k s) = isSubscribedTrading s"
  by (simp add: await_def split: pstate.splits)

lemma flag_listeners [simp]:
  "isSubscribedTrading (ws_on c h s) = isSubscribedTrading s"
  "isSubscribedTrading (addEventListener c h s) = isSubscribedTrading s"
  "isSubscribedTrading (removeEventListener c h s) = isSubscribedTrading s"
  by (simp_all add: ws_on_def addEventListener_def removeEventListener_def)

lemma flag_ws_send:
  "(\<And>e t. isSubscribedTrading (cb e t) = isSubscribedTrading t) \<Longrightarrow>
   isSubscribedTrading (ws_send c req cb s) = isSubscribedTrading s"
  by (simp add: ws_send_def)

lemma flag_rejectOnError [simp]:
  "isSubscribedTrading (rejectOnError p e s) = isSubscribedTrading s"
  by (simp add: rejectOnError_def split: option.splits)

lemma flag_authenticate [simp]:
  "isSubscribedTrading (snd (authenticate c tok s)) = isSubscribedTrading s"
  by (simp add: authenticate_def Let_def split_beta flag_ws_send split: option.splits)

lemma flag_getSocket [simp]: "isSubscribedTrading (snd (getSocket s)) = isSubscribedTrading s"
  by (simp add: getSocket_def Let_def split_beta)

lemma flag_send3 [simp]: "isSubscribedTrading (send3 p req s) = isSubscribedTrading s"
  by (simp add: send3_def flag_ws_send split: option.splits)

lemma flag_send2 [simp]: "isSubscribedTrading (send2 p req tok s) = isSubscribedTrading s"
  by (simp add: send2_def Let_def split_beta split: option.splits)

lemma flag_send [simp]: "isSubscribedTrading (snd (send req tok s)) = isSubscribedTrading s"
  by (simp add: send_def Let_def split_beta)

lemma flag_unsubscribe [simp]:
  "isSubscribedTrading (snd (unsubscribe ch ps s)) = isSubscribedTrading s"
  by (simp add: unsubscribe_def Let_def split_beta flag_ws_send split: option.splits)

lemma flag_subscribe3 [simp]:
  "isSubscribedTrading (subscribe3 p ch cb ps s) = isSubscribedTrading s"
  by (simp add: subscribe3_def Let_def flag_ws_send split: option.splits)

lemma flag_subscribe2 [simp]:
  "isSubscribedTrading (subscribe2 p ch l ps tok s) = isSubscribedTrading s"
  by (simp add: subscribe2_def Let_def split_beta split: option.splits)

lemma flag_subscribe [simp]:
  "isSubscribedTrading (snd (subscribe ch l pso tok s)) = isSubscribedTrading s"
  by (simp add: subscribe_def Let_def split_beta)


lemma flag_clientCall:
  "event f \<noteq> SUBSCRIBED \<Longrightarrow> isSubscribedTrading (clientCall cb f s) = isSubscribedTrading s"
  by (induction cb arbitrary: s)
     (simp_all add: Let_def split_beta split: ChannelEvent.splits option.splits)

lemma flag_handle [simp]:
  "isSubscribedTrading (snd (handle h m s)) = isSubscribedTrading s"
proof (cases m)
  case None
  then show ?thesis by simp
next
  case (Some x)
  then show ?thesis
    by (cases h; cases x)
       (simp_all add: Let_def flag_clientCall split: option.splits ChannelEvent.splits)
qed

lemma flag_emit [simp]: "isSubscribedTrading (emit hs f s) = isSubscribedTrading s"
proof (induction hs arbitrary: s)
  case Nil
  then show ?case by simp
next
  case (Cons rh hs)
  let ?r = "handle (snd rh)
          (Some (case fst rh of ViaOn \<Rightarrow> RawData f | ViaAddEventListener \<Rightarrow> MessageEvent f)) s"
  have h: "isSubscribedTrading (snd ?r) = isSubscribedTrading s"
    by (rule flag_handle)
  show ?case
  proof (cases ?r)
    case (Pair e s1)
    with h Cons.IH [of s1] show ?thesis
      by (cases e) simp_all
  qed
qed

lemma flag_socket_events [simp]:
  "isSubscribedTrading (onmessage c f s) = isSubscribedTrading s"
  "isSubscribedTrading (onopen c s) = isSubscribedTrading s"
  "isSubscribedTrading (onerror c cyclic m s) = isSubscribedTrading s"
  "isSubscribedTrading (onclose c s) = isSubscribedTrading s"
  by (simp_all add: onmessage_def onopen_def onerror_def onclose_def)

lemma flag_rejected [simp]: "isSubscribedTrading (snd (rejected e s)) = isSubscribedTrading s"
  by (simp add: rejected_def Let_def split_beta)

lemma flag_subscribeTrading:
  "subscribeTrading cb s = Inr (q, t) \<Longrightarrow> isSubscribedTrading t = isSubscribedTrading s"
  by (auto simp add: subscribeTrading_def Let_def split_beta split: option.splits if_splits)

lemma flag_getOpenOrders [simp]:
  "isSubscribedTrading (snd (getOpenOrders s)) = isSubscribedTrading s"
  by (auto simp add: getOpenOrders_def Let_def split_beta dest: flag_subscribeTrading
        split: option.splits sum.splits)

lemma flag_promised [simp]: "isSubscribedTrading (promised r) = isSubscribedTrading (snd r)"
  by (simp add: promised_def)

lemma flag_tickers [simp]:
  "isSubscribedTrading (snd (getTicker x s)) = isSubscribedTrading s"
  "isSubscribedTrading (snd (subscribeTicker x cb s)) = isSubscribedTrading s"
  "isSubscribedTrading (snd (unsubscribeTicker x s)) = isSubscribedTrading s"
  "isSubscribedTrading (snd (getMarket x l s)) = isSubscribedTrading s"
  "isSubscribedTrading (snd (subscribeMarket x l cb s)) = isSubscribedTrading s"
  "isSubscribedTrading (snd (unsubscribeMarket x l s)) = isSubscribedTrading s"
  "isSubscribedTrading (snd (getBalances s)) = isSubscribedTrading s"
  "isSubscribedTrading (snd (subscribeBalances cb s)) = isSubscribedTrading s"
  by (simp_all add: getTicker_def subscribeTicker_def unsubscribeTicker_def getMarket_def
        subscribeMarket_def unsubscribeMarket_def getBalances_def subscribeBalances_def
        Let_def split_beta split: option.splits)

lemma flag_thrown_or_promised:
  "(\<And>q t. r = Inr (q, t) \<Longrightarrow> isSubscribedTrading t = isSubscribedTrading s) \<Longrightarrow>
   isSubscribedTrading (thrown_or_promised s r) = isSubscribedTrading s"
  by (cases r) (auto simp add: thrown_or_promised_def)

lemma flag_unsubscribeBalances:
  "unsubscribeBalances s = Inr (q, t) \<Longrightarrow> isSubscribedTrading t = isSubscribedTrading s"
proof -
  have "case unsubscribeBalances s of Inl e \<Rightarrow> True
        | Inr r \<Rightarrow> isSubscribedTrading (snd r) = isSubscribedTrading s"
    by (simp add: unsubscribeBalances_def split: option.splits)
  then show "unsubscribeBalances s = Inr (q, t) \<Longrightarrow> isSubscribedTrading t = isSubscribedTrading s"
    by simp
qed

lemma flag_unsubcribeTrading:
  "unsubcribeTrading s = Inr (q, t) \<Longrightarrow> isSubscribedTrading t = isSubscribedTrading s"
proof -
  have "case unsubcribeTrading s of Inl e \<Rightarrow> True
        | Inr r \<Rightarrow> isSubscribedTrading (snd r) = isSubscribedTrading s"
    by (simp add: unsubcribeTrading_def Let_def split_beta split: option.splits)
  then show "unsubcribeTrading s = Inr (q, t) \<Longrightarrow> isSubscribedTrading t = isSubscribedTrading s"
    by simp
qed

lemma flag_createOrder [simp]:
  "isSubscribedTrading (snd (createOrder order s)) = isSubscribedTrading s"
  by (auto simp add: createOrder_def Let_def split_beta dest: flag_subscribeTrading
        split: option.splits sum.splits)

lemma flag_cancelOrder [simp]:
  "isSubscribedTrading (snd (cancelOrder oid s)) = isSubscribedTrading s"
  by (auto simp add: cancelOrder_def Let_def split_beta dest: flag_subscribeTrading
        split: option.splits sum.splits)

lemma flag_orders [simp]:
  "isSubscribedTrading (snd (getOrderByClientOrderId key s)) = isSubscribedTrading s"
  "isSubscribedTrading (snd (getOrder key s)) = isSubscribedTrading s"
  "isSubscribedTrading (snd (cancelAllOrders s)) = isSubscribedTrading s"
  by (simp_all add: getOrderByClientOrderId_def getOrder_def cancelAllOrders_def
        Let_def split_beta split: option.splits)

lemma flag_invoke:
  "c \<noteq> Flush \<Longrightarrow> isSubscribedTrading (invoke c s) = isSubscribedTrading s"
  by (cases c)
     (simp_all add: flag_thrown_or_promised flag_unsubscribeBalances flag_subscribeTrading
        flag_unsubcribeTrading setAuthenticationToken_def flush_def)

lemma flag_cancelAllFrom [simp]:
  "isSubscribedTrading (cancelAllFrom p cell i s) = isSubscribedTrading s"
  by (simp add: cancelAllFrom_def Let_def split_beta)


lemma flag_run:
  "isSubscribedTrading (run k r s) =
     (isSubscribedTrading s \<and> \<not> (\<exists>p v. k = ClearTradingFlag p \<and> r = Inr v))"
proof (cases r)
  case (Inl e)
  then show ?thesis by (cases k) simp_all
next
  case (Inr v)
  show ?thesis
  proof (cases k)
    case (CancelAllGotOrders p)
    show ?thesis
    proof (cases v)
      case (VOrders os)
      let ?s1 = "if os = [] then resolve p VUndefined s else s"
      let ?s2 = "?s1\<lparr>cells := cells ?s1 @ [os]\<rparr>"
      have s2: "isSubscribedTrading ?s2 = isSubscribedTrading s" by simp
      show ?thesis
      proof (cases "subscribeTrading (CancelAllCb (length (cells ?s1)) p) ?s2")
        case (Inl e)
        with Inr CancelAllGotOrders VOrders s2 show ?thesis by (simp add: Let_def)
      next
        case (Inr qt)
        obtain q t where qt: "qt = (q, t)" by (cases qt)
        from Inr qt have "subscribeTrading (CancelAllCb (length (cells ?s1)) p) ?s2 = Inr (q, t)"
          by simp
        from flag_subscribeTrading [OF this] s2
        have "isSubscribedTrading t = isSubscribedTrading s" by simp
        with \<open>r = Inr v\<close> CancelAllGotOrders VOrders s2 Inr qt show ?thesis
          by (simp add: Let_def)
      qed
    qed (use Inr CancelAllGotOrders in simp_all)
  qed (use Inr in \<open>simp_all add: Let_def split_beta split: val.splits option.splits\<close>)
qed

lemma flag_drain:
  "drain n s = Some t \<Longrightarrow> isSubscribedTrading t \<Longrightarrow> isSubscribedTrading s"
proof (induction n arbitrary: s)
  case 0
  then show ?case by (simp split: if_splits)
next
  case (Suc n)
  show ?case
  proof (cases "jobs s")
    case Nil
    with Suc.prems show ?thesis by simp
  next
    case (Cons job rest)
    with Suc.prems have "drain n (run (fst job) (snd job) (s\<lparr>jobs := rest\<rparr>)) = Some t"
      by simp
    from Suc.IH [OF this Suc.prems(2)] show ?thesis
      by (simp add: flag_run)
  qed
qed

lemma flag_react: "isSubscribedTrading (react x s) \<Longrightarrow> isSubscribedTrading s"
proof (cases x)
  case (Call c)
  then show "isSubscribedTrading (react x s) \<Longrightarrow> isSubscribedTrading s"
    by (cases "c = Flush") (simp_all add: flag_invoke Bcx_flush_def flush_def)
qed simp_all

lemma flag_step:
  "step n x s = Some t \<Longrightarrow> isSubscribedTrading t \<Longrightarrow> isSubscribedTrading s"
  unfolding step_def by (blast dest: flag_drain flag_react)

lemma flag_exec:
  "exec n xs s = Some t \<Longrightarrow> isSubscribedTrading t \<Longrightarrow> isSubscribedTrading s"
proof (induction xs arbitrary: s)
  case Nil
  then show ?case by simp
next
  case (Cons x xs)
  then obtain s1 where 1: "step n x s = Some s1" and 2: "exec n xs s1 = Some t"
    by (auto split: option.splits)
  from Cons.IH [OF 2 Cons.prems(2)] have "isSubscribedTrading s1" .
  with 1 show ?case by (rule flag_step)
qed

lemma flag_clientCall_kept:
  "isSubscribedTrading s \<Longrightarrow> isSubscribedTrading (clientCall cb f s)"
  by (induction cb arbitrary: s)
     (simp_all add: Let_def split_beta split: ChannelEvent.splits option.splits)

text \<open>
  C2. \<open>subscribeTrading\<close> never reaches Subscribed. The listener it passes to \<open>subscribe\<close>
  sets the flag when it is called with a \<open>subscribed\<close> frame (lines 454-456), but
  \<open>socketHandler\<close> answers that frame itself and calls no listener (socket.ts 226-228).
  So after a \<open>subscribeTrading\<close> that the server has acknowledged and whose promise
  (promise 0) is resolved, the callback having received the snapshot, the flag is
  false, and \<open>unsubcribeTrading\<close> returns a promise (promise 4) rejected with
  \<open>You not subscribed to trading\<close> and writes nothing. No run of a new client ever sets
  the flag. The rest of the state machine is there: a call other than \<open>flush\<close> leaves the
  flag as it is and \<open>flush\<close> resets it, no event of a socket changes it, of the
  microtasks only the reaction of \<open>unsubcribeTrading\<close> to a fulfilled \<open>unsubscribe\<close>
  changes it, and on a client whose flag is set \<open>unsubcribeTrading\<close> writes the
  unsubscribe request and resets the flag once the server has acknowledged it.
\<close>

theorem subscribeTrading_never_sets_flag:
  "map_option
     (\<lambda>s. (isSubscribedTrading s, returned s, promises s ! 0, calls s, promises s ! 4,
            map (action \<circ> snd) (outbox s)))
     (exec 10 (established (SubscribeTrading 0) @ [Message 0 (snapshot []), Call UnsubcribeTrading])
        (Bcx (Some ''k''))) =
     Some (False, [Inr 0, Inr 4], Fulfilled VUndefined, [(0, snapshot [])],
           Rejected (Thrown ''You not subscribed to trading''), [SUBSCRIBE, SUBSCRIBE]) \<and>
   map_option isSubscribedTrading (exec n xs (Bcx secret)) \<noteq> Some True \<and>
   isSubscribedTrading (clientCall (TradingCb cb p) (envelope TRADING SUBSCRIBED) s) \<and>
   snd (handle (SocketHandler ch ps p) (Some (RawData (envelope ch SUBSCRIBED))) s) =
     resolve p VUndefined s \<and>
   isSubscribedTrading (invoke c s) = (c \<noteq> Flush \<and> isSubscribedTrading s) \<and>
   isSubscribedTrading (onmessage w f s) = isSubscribedTrading s \<and>
   isSubscribedTrading (onopen w s) = isSubscribedTrading s \<and>
   isSubscribedTrading (onerror w cyclic m s) = isSubscribedTrading s \<and>
   isSubscribedTrading (onclose w s) = isSubscribedTrading s \<and>
   isSubscribedTrading (run k r s) =
     (isSubscribedTrading s \<and> \<not> (\<exists>q v. k = ClearTradingFlag q \<and> r = Inr v)) \<and>
   map_option
     (\<lambda>s. (isSubscribedTrading s, promises s ! 5, map (action \<circ> snd) (outbox s), listeners s))
     (exec 10 [Call UnsubcribeTrading, Message 0 (envelope TRADING UNSUBSCRIBED)]
        ((after (established (SubscribeTrading 0) @ [Message 0 (snapshot [])]) (Bcx (Some ''k'')))
           \<lparr>isSubscribedTrading := True\<rparr>)) =
     Some (False, Fulfilled VUndefined, [SUBSCRIBE, SUBSCRIBE, UNSUBSCRIBE], [])"
proof -
  have 1: "map_option
     (\<lambda>s. (isSubscribedTrading s, returned s, promises s ! 0, calls s, promises s ! 4,
            map (action \<circ> snd) (outbox s)))
     (exec 10 (established (SubscribeTrading 0) @ [Message 0 (snapshot []), Call UnsubcribeTrading])
        (Bcx (Some ''k''))) =
     Some (False, [Inr 0, Inr 4], Fulfilled VUndefined, [(0, snapshot [])],
           Rejected (Thrown ''You not subscribed to trading''), [SUBSCRIBE, SUBSCRIBE])"
    by (simp add: eval_simps)
  have 2: "map_option isSubscribedTrading (exec n xs (Bcx secret)) \<noteq> Some True"
  proof (cases "exec n xs (Bcx secret)")
    case None
    then show ?thesis by simp
  next
    case (Some t)
    have "\<not> isSubscribedTrading (Bcx secret)" by (simp add: Bcx_def)
    with flag_exec [OF Some] have "\<not> isSubscribedTrading t" by blast
    with Some show ?thesis by simp
  qed
  have 3: "isSubscribedTrading (clientCall (TradingCb cb p) (envelope TRADING SUBSCRIBED) s)"
    by (simp add: envelope_def flag_clientCall_kept)
  have 4: "snd (handle (SocketHandler ch ps p) (Some (RawData (envelope ch SUBSCRIBED))) s) =
     resolve p VUndefined s"
    by (simp add: envelope_def split: option.splits)
  have 5: "isSubscribedTrading (invoke c s) = (c \<noteq> Flush \<and> isSubscribedTrading s)"
    using flag_invoke [of c s] by (cases "c = Flush") (simp_all add: Bcx_flush_def flush_def)
  have 6: "isSubscribedTrading (run k r s) =
     (isSubscribedTrading s \<and> \<not> (\<exists>q v. k = ClearTradingFlag q \<and> r = Inr v))"
    by (rule flag_run)
  have 7: "map_option
     (\<lambda>s. (isSubscribedTrading s, promises s ! 5, map (action \<circ> snd) (outbox s), listeners s))
     (exec 10 [Call UnsubcribeTrading, Message 0 (envelope TRADING UNSUBSCRIBED)]
        ((after (established (SubscribeTrading 0) @ [Message 0 (snapshot [])]) (Bcx (Some ''k'')))
           \<lparr>isSubscribedTrading := True\<rparr>)) =
     Some (False, Fulfilled VUndefined, [SUBSCRIBE, SUBSCRIBE, UNSUBSCRIBE], [])"
    by (simp add: eval_simps)
  from 1 2 3 4 5 6 7 show ?thesis by simp
qed

end
